theory Spec2Isabelle
  imports Main "HOL-Library.Word"
begin

unbundle bit_operations_syntax

section \<open>Stereo mode negotiation of stereo-es2gears\<close>

text \<open>
  A shallow embedding of the option parsing, mode negotiation, layout computation and
  buffer swap of \<^verbatim>\<open>stereo-es2gears.c\<close>. Each definition carries the name of the C function
  it embeds. A C out-parameter or a mutated struct becomes a returned value; a NULL
  pointer becomes \<open>None\<close>; a dereference of NULL, a failed \<^verbatim>\<open>assert\<close> and
  a faulting read of freed memory become values of \<open>fault\<close>.
\<close>

subsection \<open>Constants of the DRM headers\<close>

type_synonym u16 = "16 word"
type_synonym u32 = "32 word"

text \<open>
  Modelled from the spec: the stereoscopic packing enumeration (None, FramePacking,
  FieldAlternative, LineAlternative, SideBySideFull, LDepth, LDepthGfxGfxDepth,
  TopAndBottom, SideBySideHalf) is declared in the DRM header \<^verbatim>\<open>drm_mode.h\<close>, which
  is not part of the source file. The tag is a five-bit field of the mode flags at bit 14;
  the numbers are the header's.
\<close>

definition DRM_MODE_FLAG_3D_MASK :: u32 where
  "DRM_MODE_FLAG_3D_MASK = push_bit 14 31"

definition DRM_MODE_FLAG_3D_NONE :: u32 where
  "DRM_MODE_FLAG_3D_NONE = push_bit 14 0"

definition DRM_MODE_FLAG_3D_FRAME_PACKING :: u32 where
  "DRM_MODE_FLAG_3D_FRAME_PACKING = push_bit 14 1"

definition DRM_MODE_FLAG_3D_FIELD_ALTERNATIVE :: u32 where
  "DRM_MODE_FLAG_3D_FIELD_ALTERNATIVE = push_bit 14 2"

definition DRM_MODE_FLAG_3D_LINE_ALTERNATIVE :: u32 where
  "DRM_MODE_FLAG_3D_LINE_ALTERNATIVE = push_bit 14 3"

definition DRM_MODE_FLAG_3D_SIDE_BY_SIDE_FULL :: u32 where
  "DRM_MODE_FLAG_3D_SIDE_BY_SIDE_FULL = push_bit 14 4"

definition DRM_MODE_FLAG_3D_L_DEPTH :: u32 where
  "DRM_MODE_FLAG_3D_L_DEPTH = push_bit 14 5"

definition DRM_MODE_FLAG_3D_L_DEPTH_GFX_GFX_DEPTH :: u32 where
  "DRM_MODE_FLAG_3D_L_DEPTH_GFX_GFX_DEPTH = push_bit 14 6"

definition DRM_MODE_FLAG_3D_TOP_AND_BOTTOM :: u32 where
  "DRM_MODE_FLAG_3D_TOP_AND_BOTTOM = push_bit 14 7"

definition DRM_MODE_FLAG_3D_SIDE_BY_SIDE_HALF :: u32 where
  "DRM_MODE_FLAG_3D_SIDE_BY_SIDE_HALF = push_bit 14 8"

text \<open>\<^verbatim>\<open>ENOENT\<close> of \<^verbatim>\<open>errno.h\<close>.\<close>

definition ENOENT :: int where
  "ENOENT = 2"

subsection \<open>Data\<close>

text \<open>
  \<^verbatim>\<open>drmModeModeInfo\<close>: the fields the program reads. The sizes are 16-bit and the flags
  32-bit, as in \<^verbatim>\<open>xf86drmMode.h\<close>.
\<close>

record drmModeModeInfo =
  hdisplay :: u16
  vdisplay :: u16
  vtotal :: u16
  flags :: u32

record mode_layout =
  buffer_width :: u32
  buffer_height :: u32
  eye_width :: u32
  eye_height :: u32
  virtual_eye_width :: u32
  virtual_eye_height :: u32
  right_eye_x :: u32
  left_eye_y :: u32

record drmModeCrtc =
  crtc_id :: u32
  buffer_id :: u32
  crtc_x :: u32
  crtc_y :: u32
  crtc_mode :: drmModeModeInfo

record gbm_dev =
  fd :: int
  layout :: mode_layout
  mode :: drmModeModeInfo
  conn :: u32
  crtc :: u32
  saved_crtc :: "drmModeCrtc option"
  pending_swap :: int

text \<open>
  \<^verbatim>\<open>stereo_options\<close>. The field \<^verbatim>\<open>card\<close> is \<open>card_path\<close> here, since
  \<open>card\<close> is the cardinality of a set in HOL.
\<close>

record stereo_options =
  card_path :: "string option"
  stereo_layout :: "string option"
  connector :: u32

record stereo_mode =
  mode_number :: u32
  short_name :: string
  long_name :: string

datatype fault = NullDereference | AssertionFailure | UseAfterFree

definition stereo_modes :: "stereo_mode list" where
  "stereo_modes =
    [\<lparr>mode_number = DRM_MODE_FLAG_3D_NONE, short_name = ''none'', long_name = ''none''\<rparr>,
     \<lparr>mode_number = DRM_MODE_FLAG_3D_FRAME_PACKING, short_name = ''fp'',
       long_name = ''frame packing''\<rparr>,
     \<lparr>mode_number = DRM_MODE_FLAG_3D_FIELD_ALTERNATIVE, short_name = ''fa'',
       long_name = ''field alternative''\<rparr>,
     \<lparr>mode_number = DRM_MODE_FLAG_3D_LINE_ALTERNATIVE, short_name = ''la'',
       long_name = ''line alternative''\<rparr>,
     \<lparr>mode_number = DRM_MODE_FLAG_3D_SIDE_BY_SIDE_FULL, short_name = ''sbsf'',
       long_name = ''side by side full''\<rparr>,
     \<lparr>mode_number = DRM_MODE_FLAG_3D_L_DEPTH, short_name = ''ld'', long_name = ''l depth''\<rparr>,
     \<lparr>mode_number = DRM_MODE_FLAG_3D_L_DEPTH_GFX_GFX_DEPTH, short_name = ''ldggd'',
       long_name = ''l depth gfx gfx depth''\<rparr>,
     \<lparr>mode_number = DRM_MODE_FLAG_3D_TOP_AND_BOTTOM, short_name = ''tb'',
       long_name = ''top and bottom''\<rparr>,
     \<lparr>mode_number = DRM_MODE_FLAG_3D_SIDE_BY_SIDE_HALF, short_name = ''sbsh'',
       long_name = ''side by side half''\<rparr>]"

text \<open>The expression \<^verbatim>\<open>mode->flags & DRM_MODE_FLAG_3D_MASK\<close>.\<close>

definition flags_3d :: "drmModeModeInfo \<Rightarrow> u32" where
  "flags_3d m = flags m AND DRM_MODE_FLAG_3D_MASK"

subsection \<open>Mode selection\<close>

text \<open>\<^verbatim>\<open>get_stereo_mode\<close>: the first table entry with the number, or NULL.\<close>

fun get_stereo_mode_from :: "stereo_mode list \<Rightarrow> u32 \<Rightarrow> stereo_mode option" where
  "get_stereo_mode_from [] n = None"
| "get_stereo_mode_from (s # ss) n =
     (if mode_number s = n then Some s else get_stereo_mode_from ss n)"

definition get_stereo_mode :: "u32 \<Rightarrow> stereo_mode option" where
  "get_stereo_mode n = get_stereo_mode_from stereo_modes n"

text \<open>
  \<^verbatim>\<open>get_mode_rank\<close>: the index of the mode's tag in the table \<^verbatim>\<open>ranks\<close>, \<open>-1\<close>
  for a NULL mode and for a tag that is not in the table.
\<close>

definition ranks :: "u32 list" where
  "ranks =
    [DRM_MODE_FLAG_3D_NONE,
     DRM_MODE_FLAG_3D_SIDE_BY_SIDE_HALF,
     DRM_MODE_FLAG_3D_TOP_AND_BOTTOM,
     DRM_MODE_FLAG_3D_SIDE_BY_SIDE_FULL,
     DRM_MODE_FLAG_3D_FRAME_PACKING]"

fun rank_from :: "u32 list \<Rightarrow> nat \<Rightarrow> u32 \<Rightarrow> int" where
  "rank_from [] i l = - 1"
| "rank_from (r # rs) i l = (if r = l then int i else rank_from rs (Suc i) l)"

definition get_mode_rank :: "drmModeModeInfo option \<Rightarrow> int" where
  "get_mode_rank md =
     (case md of
        None \<Rightarrow> - 1
      | Some m \<Rightarrow> rank_from ranks 0 (flags_3d m))"

text \<open>
  \<^verbatim>\<open>is_chosen_mode\<close>. With a requested layout the short name of the table entry is
  read without a NULL check, so a tag outside the table is a NULL dereference there.
\<close>

definition is_chosen_mode ::
  "drmModeModeInfo \<Rightarrow> stereo_options \<Rightarrow> drmModeModeInfo option \<Rightarrow> fault + bool" where
  "is_chosen_mode m options old_mode =
     (let sm = get_stereo_mode (flags_3d m);
          mode_rank = get_mode_rank (Some m);
          better = (mode_rank \<noteq> - 1 \<and> mode_rank > get_mode_rank old_mode)
      in case stereo_layout options of
           None \<Rightarrow> Inr better
         | Some l \<Rightarrow>
             (case sm of
                None \<Rightarrow> Inl NullDereference
              | Some s \<Rightarrow> if short_name s \<noteq> l then Inr False else Inr better))"

text \<open>
  The loop of \<^verbatim>\<open>find_mode\<close> over \<^verbatim>\<open>conn->modes\<close>, with the device and
  \<^verbatim>\<open>old_mode\<close> as its state.
\<close>

fun find_mode_loop ::
  "stereo_options \<Rightarrow> drmModeModeInfo list \<Rightarrow> gbm_dev \<Rightarrow> drmModeModeInfo option
    \<Rightarrow> fault + (gbm_dev \<times> drmModeModeInfo option)" where
  "find_mode_loop options [] dev old_mode = Inr (dev, old_mode)"
| "find_mode_loop options (m # ms) dev old_mode =
     (case is_chosen_mode m options old_mode of
        Inl f \<Rightarrow> Inl f
      | Inr True \<Rightarrow> find_mode_loop options ms (dev\<lparr>mode := m\<rparr>) (Some m)
      | Inr False \<Rightarrow> find_mode_loop options ms dev old_mode)"

text \<open>
  \<^verbatim>\<open>find_mode\<close> on the list of the connector's modes: the return value and the
  device.
\<close>

definition find_mode ::
  "gbm_dev \<Rightarrow> drmModeModeInfo list \<Rightarrow> stereo_options \<Rightarrow> fault + (int \<times> gbm_dev)" where
  "find_mode dev modes options =
     (case find_mode_loop options modes dev None of
        Inl f \<Rightarrow> Inl f
      | Inr (dev', old_mode) \<Rightarrow> Inr (if old_mode \<noteq> None then 0 else - ENOENT, dev'))"

subsection \<open>Layout\<close>

text \<open>
  \<^verbatim>\<open>get_layout_for_mode\<close>. The 16-bit sizes are promoted to \<^verbatim>\<open>int\<close> before the
  arithmetic and the results are stored in 32-bit fields, so nothing wraps; the
  \<^verbatim>\<open>default\<close> branch is \<^verbatim>\<open>assert(0)\<close>.
\<close>

definition get_layout_for_mode :: "drmModeModeInfo \<Rightarrow> fault + mode_layout" where
  "get_layout_for_mode m =
     (let l = flags_3d m;
          h = (ucast (hdisplay m) :: u32);
          v = (ucast (vdisplay m) :: u32);
          t = (ucast (vtotal m) :: u32)
      in if l = DRM_MODE_FLAG_3D_NONE then
           Inr \<lparr>buffer_width = h, buffer_height = v,
                eye_width = h, eye_height = v,
                virtual_eye_width = h, virtual_eye_height = v,
                right_eye_x = h, left_eye_y = 0\<rparr>
         else if l = DRM_MODE_FLAG_3D_SIDE_BY_SIDE_HALF then
           Inr \<lparr>buffer_width = h, buffer_height = v,
                eye_width = h div 2, eye_height = v,
                virtual_eye_width = h, virtual_eye_height = v,
                right_eye_x = h div 2, left_eye_y = 0\<rparr>
         else if l = DRM_MODE_FLAG_3D_SIDE_BY_SIDE_FULL then
           Inr \<lparr>buffer_width = h * 2, buffer_height = v,
                eye_width = h, eye_height = v,
                virtual_eye_width = h, virtual_eye_height = v,
                right_eye_x = h, left_eye_y = 0\<rparr>
         else if l = DRM_MODE_FLAG_3D_TOP_AND_BOTTOM then
           Inr \<lparr>buffer_width = h, buffer_height = v,
                eye_width = h, eye_height = v div 2,
                virtual_eye_width = h, virtual_eye_height = v,
                right_eye_x = 0, left_eye_y = v div 2\<rparr>
         else if l = DRM_MODE_FLAG_3D_FRAME_PACKING then
           Inr \<lparr>buffer_width = h, buffer_height = t + v,
                eye_width = h, eye_height = v,
                virtual_eye_width = h, virtual_eye_height = v,
                right_eye_x = 0, left_eye_y = t\<rparr>
         else Inl AssertionFailure)"

text \<open>
  \<^verbatim>\<open>set_eye\<close>: the rectangle passed to \<^verbatim>\<open>glViewport\<close> for the left eye
  (\<open>eye = 0\<close>) and for the right eye.
\<close>

record viewport =
  vp_x :: u32
  vp_y :: u32
  vp_width :: u32
  vp_height :: u32

definition set_eye :: "mode_layout \<Rightarrow> int \<Rightarrow> viewport" where
  "set_eye l eye =
     (if eye = 0 then
        \<lparr>vp_x = 0, vp_y = left_eye_y l, vp_width = eye_width l, vp_height = eye_height l\<rparr>
      else
        \<lparr>vp_x = right_eye_x l, vp_y = 0, vp_width = eye_width l, vp_height = eye_height l\<rparr>)"

subsection \<open>Discovery\<close>

text \<open>
  Modelled from the spec: connectors, encoders and controllers are what the DRM library
  (\<^verbatim>\<open>xf86drmMode.h\<close>, not part of the source file) returns for a device. A
  \<open>drm_card\<close> holds the answers of one device to \<^verbatim>\<open>drmModeGetResources\<close>,
  \<^verbatim>\<open>drmModeGetConnector\<close> and \<^verbatim>\<open>drmModeGetEncoder\<close>; \<open>None\<close> is the NULL
  the library returns on failure. Arrays with their counts are lists. The program reads
  the controller of an encoder after it has freed the encoder with
  \<^verbatim>\<open>drmModeFreeEncoder\<close>; what that read finds is not determined by the program, so
  it is an answer of the outside world too: \<open>freed_crtc_id\<close> is \<open>None\<close> when the
  access faults and otherwise the word found in the freed block, which need not be the
  controller the encoder had.
\<close>

datatype drmModeConnection =
  DRM_MODE_CONNECTED | DRM_MODE_DISCONNECTED | DRM_MODE_UNKNOWNCONNECTION

record drmModeConnector =
  connector_id :: u32
  encoder_id :: u32
  connection :: drmModeConnection
  modes :: "drmModeModeInfo list"
  encoders :: "u32 list"

record drmModeEncoder =
  enc_crtc_id :: u32
  possible_crtcs :: u32

record drmModeRes =
  connectors :: "u32 list"
  crtcs :: "u32 list"

record drm_card =
  drmModeGetResources :: "drmModeRes option"
  drmModeGetConnector :: "u32 \<Rightarrow> drmModeConnector option"
  drmModeGetEncoder :: "u32 \<Rightarrow> drmModeEncoder option"
  freed_crtc_id :: "u32 option"

text \<open>
  The loop of \<^verbatim>\<open>get_connector\<close> over \<^verbatim>\<open>res->connectors\<close>: a connector that
  cannot be retrieved ends the search with NULL; the first retrieved connector that
  passes the identifier test is returned. The connection state is not read here.
\<close>

fun get_connector_loop ::
  "drm_card \<Rightarrow> u32 list \<Rightarrow> stereo_options \<Rightarrow> drmModeConnector option" where
  "get_connector_loop k [] options = None"
| "get_connector_loop k (i # ids) options =
     (case drmModeGetConnector k i of
        None \<Rightarrow> None
      | Some c \<Rightarrow>
          if connector options = 0 \<or> connector_id c = connector options then Some c
          else get_connector_loop k ids options)"

definition get_connector ::
  "drm_card \<Rightarrow> drmModeRes \<Rightarrow> stereo_options \<Rightarrow> drmModeConnector option" where
  "get_connector k res options = get_connector_loop k (connectors res) options"

text \<open>
  \<^verbatim>\<open>stereo_find_crtc\<close>. The inner loop runs over the global controllers with their
  index \<open>j\<close> and tests bit \<open>j\<close> of the encoder's mask (\<^verbatim>\<open>1 << j\<close>, which C
  defines for \<open>j < 31\<close>). The encoder of the first branch is read without a NULL
  check, and when it has a controller the program frees it and only then reads
  \<^verbatim>\<open>enc->crtc_id\<close> into \<^verbatim>\<open>dev->crtc\<close>: the device gets what the read of the
  freed block finds, or the read faults.
\<close>

fun scan_crtcs :: "drmModeEncoder \<Rightarrow> u32 list \<Rightarrow> nat \<Rightarrow> u32 option" where
  "scan_crtcs enc [] j = None"
| "scan_crtcs enc (c # cs) j =
     (if possible_crtcs enc AND push_bit j 1 = 0 then scan_crtcs enc cs (Suc j)
      else if 0 < c then Some c
      else scan_crtcs enc cs (Suc j))"

fun scan_encoders :: "drm_card \<Rightarrow> drmModeRes \<Rightarrow> u32 list \<Rightarrow> u32 option" where
  "scan_encoders k res [] = None"
| "scan_encoders k res (e # es) =
     (case drmModeGetEncoder k e of
        None \<Rightarrow> scan_encoders k res es
      | Some enc \<Rightarrow>
          (case scan_crtcs enc (crtcs res) 0 of
             Some c \<Rightarrow> Some c
           | None \<Rightarrow> scan_encoders k res es))"

definition stereo_find_crtc ::
  "drm_card \<Rightarrow> drmModeRes \<Rightarrow> drmModeConnector \<Rightarrow> gbm_dev \<Rightarrow> fault + (int \<times> gbm_dev)" where
  "stereo_find_crtc k res c dev =
     (let scan =
            (case scan_encoders k res (encoders c) of
               Some found \<Rightarrow> Inr (0, dev\<lparr>crtc := found\<rparr>)
             | None \<Rightarrow> Inr (- ENOENT, dev))
      in if encoder_id c \<noteq> 0 then
           (case drmModeGetEncoder k (encoder_id c) of
              None \<Rightarrow> Inl NullDereference
            | Some enc \<Rightarrow>
                if 0 < enc_crtc_id enc then
                  (case freed_crtc_id k of
                     None \<Rightarrow> Inl UseAfterFree
                   | Some found \<Rightarrow> Inr (0, dev\<lparr>crtc := found\<rparr>))
                else scan)
         else scan)"

text \<open>
  \<^verbatim>\<open>stereo_setup_dev\<close>: a connector that is not connected is refused with
  \<open>-ENOENT\<close>; otherwise the mode, the layout and the controller are found in turn.
  The long name printed after the layout is read from the table entry of the chosen tag.
\<close>

definition stereo_setup_dev ::
  "drm_card \<Rightarrow> drmModeRes \<Rightarrow> drmModeConnector \<Rightarrow> stereo_options \<Rightarrow> gbm_dev
    \<Rightarrow> fault + (int \<times> gbm_dev)" where
  "stereo_setup_dev k res c options dev =
     (if connection c \<noteq> DRM_MODE_CONNECTED then Inr (- ENOENT, dev)
      else
        case find_mode dev (modes c) options of
          Inl f \<Rightarrow> Inl f
        | Inr (ret, dev1) \<Rightarrow>
            if ret \<noteq> 0 then Inr (ret, dev1)
            else
              (case get_layout_for_mode (mode dev1) of
                 Inl f \<Rightarrow> Inl f
               | Inr l \<Rightarrow>
                   (case get_stereo_mode (flags_3d (mode dev1)) of
                      None \<Rightarrow> Inl NullDereference
                    | Some s \<Rightarrow> stereo_find_crtc k res c (dev1\<lparr>layout := l\<rparr>))))"

text \<open>The device structure after \<^verbatim>\<open>memset(dev, 0, sizeof(*dev))\<close>.\<close>

definition zero_mode :: drmModeModeInfo where
  "zero_mode = \<lparr>hdisplay = 0, vdisplay = 0, vtotal = 0, flags = 0\<rparr>"

definition zero_layout :: mode_layout where
  "zero_layout =
     \<lparr>buffer_width = 0, buffer_height = 0, eye_width = 0, eye_height = 0,
      virtual_eye_width = 0, virtual_eye_height = 0, right_eye_x = 0, left_eye_y = 0\<rparr>"

definition zero_dev :: gbm_dev where
  "zero_dev =
     \<lparr>fd = 0, layout = zero_layout, mode = zero_mode, conn = 0, crtc = 0,
      saved_crtc = None, pending_swap = 0\<rparr>"

text \<open>
  \<^verbatim>\<open>stereo_prepare_dev\<close>: the device structure for the connector that
  \<^verbatim>\<open>get_connector\<close> returned, or NULL. No other connector is tried when the setup
  of that one fails.
\<close>

definition stereo_prepare_dev ::
  "int \<Rightarrow> drm_card \<Rightarrow> stereo_options \<Rightarrow> fault + gbm_dev option" where
  "stereo_prepare_dev fdn k options =
     (case drmModeGetResources k of
        None \<Rightarrow> Inr None
      | Some res \<Rightarrow>
          (case get_connector k res options of
             None \<Rightarrow> Inr None
           | Some c \<Rightarrow>
               (case stereo_setup_dev k res c options
                       (zero_dev\<lparr>conn := connector_id c, fd := fdn\<rparr>) of
                  Inl f \<Rightarrow> Inl f
                | Inr (ret, dev') \<Rightarrow> if ret \<noteq> 0 then Inr None else Inr (Some dev'))))"

subsection \<open>Presenting a frame\<close>

text \<open>
  \<^verbatim>\<open>swap\<close> talks to the display hardware through EGL, GBM and DRM. The model
  records every such call, with its arguments and its answer, in a trace, in the order of
  the calls. The answers of one call of \<^verbatim>\<open>swap\<close> are given by a \<open>swap_env\<close>:
  the buffer that \<^verbatim>\<open>gbm_surface_lock_front_buffer\<close> returns (NULL is \<open>None\<close>), the
  return values of \<^verbatim>\<open>drmModeAddFB\<close>, \<^verbatim>\<open>drmModeSetCrtc\<close> and
  \<^verbatim>\<open>drmModePageFlip\<close>, the framebuffer identifier and the controller configuration
  they hand back, the value of \<^verbatim>\<open>errno\<close> after a failed modeset, and for each call
  of \<^verbatim>\<open>drmHandleEvent\<close> whether it dispatches the page-flip handler. A list of events
  that ends while the flip is pending is a device that sends nothing more: the blocking
  read never returns.
\<close>

record gbm_bo =
  bo_ptr :: nat
  bo_width :: u32
  bo_height :: u32
  bo_stride :: u32
  bo_handle :: u32

record gbm_context =
  current_fb_id :: u32
  current_bo :: "gbm_bo option"

text \<open>
  \<^verbatim>\<open>stereo_winsys\<close>: \<^verbatim>\<open>winsys->dev\<close> and \<^verbatim>\<open>winsys->context\<close>. The pointer
  \<^verbatim>\<open>context->dev\<close> is the same device, so the context record does not repeat it.
\<close>

record stereo_winsys =
  ws_dev :: gbm_dev
  ws_context :: gbm_context

record swap_env =
  lock_front_buffer :: "gbm_bo option"
  addfb_ret :: int
  addfb_fb_id :: u32
  getcrtc :: "drmModeCrtc option"
  setcrtc_ret :: int
  errno :: int
  pageflip_ret :: int
  events :: "bool list"

datatype call =
  EglSwapBuffers
| GbmSurfaceLockFrontBuffer "gbm_bo option"
| DrmModeAddFB u32 u32 nat nat u32 u32 int u32
| DrmModeGetCrtc u32 "drmModeCrtc option"
| DrmModeSetCrtc u32 u32 nat nat "u32 list" drmModeModeInfo int
| DrmModePageFlip u32 u32 int
| DrmHandleEvent bool
| DrmModeRmFB u32
| GbmSurfaceReleaseBuffer gbm_bo
| Fprintf string

datatype 'a outcome = Returns 'a | Exits int | Blocks | Crashes fault

text \<open>\<^verbatim>\<open>page_flip_handler\<close>.\<close>

definition page_flip_handler :: "gbm_dev \<Rightarrow> gbm_dev" where
  "page_flip_handler dev = dev\<lparr>pending_swap := 0\<rparr>"

text \<open>
  \<^verbatim>\<open>wait_swap\<close>: \<^verbatim>\<open>drmHandleEvent\<close> is called as long as \<^verbatim>\<open>pending_swap\<close> is
  set. The result is \<open>None\<close> when the events end before the handler has run.
\<close>

fun wait_swap :: "bool list \<Rightarrow> gbm_dev \<Rightarrow> call list \<times> gbm_dev option" where
  "wait_swap [] dev =
     (if pending_swap dev \<noteq> 0 then ([], None) else ([], Some dev))"
| "wait_swap (e # es) dev =
     (if pending_swap dev \<noteq> 0 then
        (let r = wait_swap es (if e then page_flip_handler dev else dev)
         in (DrmHandleEvent e # fst r, snd r))
      else ([], Some dev))"

text \<open>
  \<^verbatim>\<open>set_initial_crtc\<close>: the controller's configuration is read into
  \<^verbatim>\<open>saved_crtc\<close> (NULL when the query fails), then the mode is set with the new
  framebuffer. The result is the calls, the return value and the device.
\<close>

definition set_initial_crtc ::
  "swap_env \<Rightarrow> gbm_dev \<Rightarrow> u32 \<Rightarrow> call list \<times> int \<times> gbm_dev" where
  "set_initial_crtc env dev fb_id =
     (let dev1 = dev\<lparr>saved_crtc := getcrtc env\<rparr>;
          calls =
            [DrmModeGetCrtc (crtc dev) (getcrtc env),
             DrmModeSetCrtc (crtc dev1) fb_id 0 0 [conn dev1] (mode dev1) (setcrtc_ret env)]
      in if setcrtc_ret env \<noteq> 0 then
           (calls @ [Fprintf ''Failed to set drm mode''], errno env, dev1)
         else (calls, 0, dev1))"

text \<open>\<^verbatim>\<open>free_current_bo\<close>.\<close>

definition free_current_bo :: "gbm_context \<Rightarrow> call list \<times> gbm_context" where
  "free_current_bo context =
     (let (t1, c1) =
            (if current_fb_id context \<noteq> 0 then
               ([DrmModeRmFB (current_fb_id context)], context\<lparr>current_fb_id := 0\<rparr>)
             else ([], context))
      in case current_bo c1 of
           Some bo \<Rightarrow> (t1 @ [GbmSurfaceReleaseBuffer bo], c1\<lparr>current_bo := None\<rparr>)
         | None \<Rightarrow> (t1, c1))"

text \<open>
  \<^verbatim>\<open>swap\<close>. The result is the trace of the calls made and how the function ends:
  it returns with the new state, it blocks in \<^verbatim>\<open>wait_swap\<close>, or it reads the
  size of a NULL buffer. \<^verbatim>\<open>DRM_MODE_PAGE_FLIP_EVENT\<close> is the only flag ever passed to
  \<^verbatim>\<open>drmModePageFlip\<close> and is left out of the recorded call.
\<close>

definition swap :: "swap_env \<Rightarrow> stereo_winsys \<Rightarrow> call list \<times> stereo_winsys outcome" where
  "swap env winsys =
     (let dev = ws_dev winsys;
          context = ws_context winsys;
          t0 = [EglSwapBuffers, GbmSurfaceLockFrontBuffer (lock_front_buffer env)]
      in case lock_front_buffer env of
           None \<Rightarrow> (t0, Crashes NullDereference)
         | Some bo \<Rightarrow>
             (let fb_id = addfb_fb_id env;
                  t1 = t0 @ [DrmModeAddFB (bo_width bo) (bo_height bo) 24 32 (bo_stride bo)
                               (bo_handle bo) (addfb_ret env) fb_id]
              in if addfb_ret env \<noteq> 0 then
                   (t1 @ [Fprintf ''Failed to create new back buffer handle''], Returns winsys)
                 else
                   (let (t2, ret, dev2) =
                          (if saved_crtc dev = None then set_initial_crtc env dev fb_id
                           else ([], 0, dev))
                    in if ret \<noteq> 0 then
                         (t1 @ t2, Returns (winsys\<lparr>ws_dev := dev2\<rparr>))
                       else
                         (let t3 = t1 @ t2 @ [DrmModePageFlip (crtc dev2) fb_id (pageflip_ret env)]
                          in if pageflip_ret env \<noteq> 0 then
                               (t3 @ [Fprintf ''Failed to page flip''],
                                Returns (winsys\<lparr>ws_dev := dev2\<rparr>))
                             else
                               (case wait_swap (events env) (dev2\<lparr>pending_swap := 1\<rparr>) of
                                  (t4, None) \<Rightarrow> (t3 @ t4, Blocks)
                                | (t4, Some dev3) \<Rightarrow>
                                    (let (t5, c5) = free_current_bo context
                                     in (t3 @ t4 @ t5,
                                         Returns \<lparr>ws_dev = dev3,
                                                  ws_context = c5\<lparr>current_bo := Some bo,
                                                    current_fb_id := fb_id\<rparr>\<rparr>)))))))"

text \<open>
  The loop of \<^verbatim>\<open>main_loop\<close>, one \<open>swap_env\<close> for each frame presented before the
  \<^verbatim>\<open>quit\<close> flag is seen. Drawing the frame makes no DRM or GBM call and is left out.
\<close>

fun main_loop :: "swap_env list \<Rightarrow> stereo_winsys \<Rightarrow> call list \<times> stereo_winsys outcome" where
  "main_loop [] winsys = ([], Returns winsys)"
| "main_loop (env # envs) winsys =
     (case swap env winsys of
        (t, Returns winsys') \<Rightarrow> (let r = main_loop envs winsys' in (t @ fst r, snd r))
      | (t, other) \<Rightarrow> (t, other))"

subsection \<open>Command line\<close>

text \<open>
  \<^verbatim>\<open>getopt\<close> is the C library's, not part of the source file; it is modelled
  from its manual page. \<open>getopt_seq\<close> is the sequence of its return values, each with \<^verbatim>\<open>optarg\<close>, up to
  the \<open>-1\<close> that ends the scan, for an option string that starts with \<open>-\<close> and has
  no optional arguments (as \<^verbatim>\<open>"-c:l:h"\<close>): an argument that is not an option is
  returned as the option with code 1; \<open>--\<close> ends the scan; a character that is not in
  the option string, and an option whose argument is missing, are returned as \<open>?\<close>.
  The first parameter is the option string after its leading \<open>-\<close>, the second the
  rest of the argument being scanned, the third the arguments after it.
\<close>

fun takes_arg :: "string \<Rightarrow> char \<Rightarrow> bool option" where
  "takes_arg [] c = None"
| "takes_arg (x # xs) c =
     (if x = c \<and> c \<noteq> CHR '':'' then
        Some (case xs of [] \<Rightarrow> False | y # ys \<Rightarrow> y = CHR '':'')
      else takes_arg xs c)"

definition nonoption :: "string \<Rightarrow> bool" where
  "nonoption a = (case a of [] \<Rightarrow> True | x # xs \<Rightarrow> x \<noteq> CHR ''-'' \<or> xs = [])"

fun getopt_seq :: "string \<Rightarrow> string \<Rightarrow> string list \<Rightarrow> (char \<times> string option) list" where
  "getopt_seq os [] [] = []"
| "getopt_seq os [] (a # as) =
     (if a = ''--'' then []
      else if nonoption a then (CHR 0x01, Some a) # getopt_seq os [] as
      else getopt_seq os (tl a) as)"
| "getopt_seq os (c # cs) as =
     (case takes_arg os c of
        None \<Rightarrow> (CHR ''?'', None) # getopt_seq os cs as
      | Some False \<Rightarrow> (c, None) # getopt_seq os cs as
      | Some True \<Rightarrow>
          if cs \<noteq> [] then (c, Some cs) # getopt_seq os [] as
          else
            (case as of
               [] \<Rightarrow> [(CHR ''?'', None)]
             | b # bs \<Rightarrow> (c, Some b) # getopt_seq os [] bs))"

definition EXIT_FAILURE :: int where
  "EXIT_FAILURE = 1"

text \<open>
  The \<^verbatim>\<open>switch\<close> of \<^verbatim>\<open>process_options\<close> on the values that \<^verbatim>\<open>getopt\<close>
  returns; \<^verbatim>\<open>usage\<close> ends the process with \<^verbatim>\<open>exit(0)\<close>. \<^verbatim>\<open>atoi\<close> is a
  parameter.
\<close>

fun process_options_loop ::
  "(string \<Rightarrow> int) \<Rightarrow> (char \<times> string option) list \<Rightarrow> stereo_options
    \<Rightarrow> (int \<times> stereo_options) outcome" where
  "process_options_loop atoi [] options = Returns (0, options)"
| "process_options_loop atoi ((opt, optarg) # rest) options =
     (if opt = CHR ''h'' then Exits 0
      else if opt = CHR ''d'' then process_options_loop atoi rest (options\<lparr>card_path := optarg\<rparr>)
      else if opt = CHR ''c'' then
        (case optarg of
           None \<Rightarrow> Crashes NullDereference
         | Some a \<Rightarrow>
             process_options_loop atoi rest (options\<lparr>connector := word_of_int (atoi a)\<rparr>))
      else if opt = CHR ''l'' then
        process_options_loop atoi rest (options\<lparr>stereo_layout := optarg\<rparr>)
      else Returns (EXIT_FAILURE, options))"

text \<open>
  \<^verbatim>\<open>process_options\<close> on \<^verbatim>\<open>argv\<close>, with the option string \<^verbatim>\<open>"-c:l:h"\<close> of the
  source; \<^verbatim>\<open>argv[0]\<close> is the program name.
\<close>

definition process_options :: "(string \<Rightarrow> int) \<Rightarrow> string list \<Rightarrow> (int \<times> stereo_options) outcome" where
  "process_options atoi argv =
     process_options_loop atoi (getopt_seq ''c:l:h'' [] (tl argv))
       \<lparr>card_path = None, stereo_layout = None, connector = 0\<rparr>"

text \<open>The path that \<^verbatim>\<open>stereo_open\<close> opens.\<close>

definition stereo_open_card :: "stereo_options \<Rightarrow> string" where
  "stereo_open_card options = (case card_path options of None \<Rightarrow> ''/dev/dri/card0'' | Some p \<Rightarrow> p)"

subsection \<open>Predicates of the specification and example values\<close>

text \<open>
  A mode passes the layout filter when no layout was requested or when the short name of
  its packing is the requested one.
\<close>

definition layout_requested :: "stereo_options \<Rightarrow> drmModeModeInfo \<Rightarrow> bool" where
  "layout_requested options m =
     (case stereo_layout options of
        None \<Rightarrow> True
      | Some l \<Rightarrow>
          (case get_stereo_mode (flags_3d m) of
             None \<Rightarrow> False
           | Some s \<Rightarrow> short_name s = l))"

text \<open>A 1920x1080 mode with 1125 lines in total, and a 1365x767 one, for the examples.\<close>

definition hd_mode :: "u32 \<Rightarrow> drmModeModeInfo" where
  "hd_mode f = \<lparr>hdisplay = 1920, vdisplay = 1080, vtotal = 1125, flags = f\<rparr>"

definition odd_mode :: "u32 \<Rightarrow> drmModeModeInfo" where
  "odd_mode f = \<lparr>hdisplay = 1365, vdisplay = 767, vtotal = 800, flags = f\<rparr>"

text \<open>
  The search of \<^verbatim>\<open>get_connector\<close> passes over a connector when it is retrieved
  and an identifier was given that is not its own.
\<close>

definition connector_passed :: "drm_card \<Rightarrow> stereo_options \<Rightarrow> u32 \<Rightarrow> bool" where
  "connector_passed k options i =
     (case drmModeGetConnector k i of
        None \<Rightarrow> False
      | Some c \<Rightarrow> connector options \<noteq> 0 \<and> connector_id c \<noteq> connector options)"

text \<open>
  A device with two connectors, for the examples: connector 1 is disconnected; connector
  2 is connected, advertises a frame-packed 1920x1080 mode and is attached to no encoder
  yet; it can use encoder 5, which has no controller yet and can drive the first
  controller of the device, controller 10. So the controller is found by the scan over
  the encoders, and no freed encoder is read.
\<close>

definition two_connector_card :: drm_card where
  "two_connector_card =
     \<lparr>drmModeGetResources = Some \<lparr>connectors = [1, 2], crtcs = [10]\<rparr>,
      drmModeGetConnector =
        (\<lambda>i. if i = 1 then
               Some \<lparr>connector_id = 1, encoder_id = 0, connection = DRM_MODE_DISCONNECTED,
                     modes = [], encoders = [5]\<rparr>
             else if i = 2 then
               Some \<lparr>connector_id = 2, encoder_id = 0, connection = DRM_MODE_CONNECTED,
                     modes = [hd_mode DRM_MODE_FLAG_3D_FRAME_PACKING], encoders = [5]\<rparr>
             else None),
      drmModeGetEncoder =
        (\<lambda>i. if i = 5 then Some \<lparr>enc_crtc_id = 0, possible_crtcs = 1\<rparr> else None),
      freed_crtc_id = None\<rparr>"

text \<open>
  The calls that give a framebuffer or a buffer back (\<^verbatim>\<open>drmModeRmFB\<close>,
  \<^verbatim>\<open>gbm_surface_release_buffer\<close>), and the calls of a modeset
  (\<^verbatim>\<open>drmModeGetCrtc\<close>, \<^verbatim>\<open>drmModeSetCrtc\<close>).
\<close>

fun is_release :: "call \<Rightarrow> bool" where
  "is_release (DrmModeRmFB fb) = True"
| "is_release (GbmSurfaceReleaseBuffer bo) = True"
| "is_release c = False"

fun is_modeset :: "call \<Rightarrow> bool" where
  "is_modeset (DrmModeGetCrtc c r) = True"
| "is_modeset (DrmModeSetCrtc c fb x y cs m r) = True"
| "is_modeset c = False"

text \<open>
  A bound device and frames, for the examples: the device is bound to connector 2 and
  controller 10 with the frame-packed mode; \<open>console_crtc\<close> is what the controller
  showed before the program, \<open>own_crtc\<close> what it shows after the program's first
  modeset; \<open>frame_env n fb\<close> is a frame in buffer \<open>n\<close> that is registered as
  framebuffer \<open>fb\<close>, where every call succeeds and the flip completes in the second
  batch of events; \<open>fresh_winsys\<close> has presented nothing yet, \<open>showing_winsys\<close>
  shows framebuffer 41 in buffer 1.
\<close>

definition example_bo :: "nat \<Rightarrow> gbm_bo" where
  "example_bo n =
     \<lparr>bo_ptr = n, bo_width = 1920, bo_height = 2205, bo_stride = 7680, bo_handle = of_nat n\<rparr>"

definition bound_dev :: gbm_dev where
  "bound_dev =
     \<lparr>fd = 3,
      layout = \<lparr>buffer_width = 1920, buffer_height = 2205, eye_width = 1920,
         eye_height = 1080, virtual_eye_width = 1920, virtual_eye_height = 1080,
         right_eye_x = 0, left_eye_y = 1125\<rparr>,
      mode = hd_mode DRM_MODE_FLAG_3D_FRAME_PACKING,
      conn = 2, crtc = 10, saved_crtc = None, pending_swap = 0\<rparr>"

definition console_crtc :: drmModeCrtc where
  "console_crtc =
     \<lparr>crtc_id = 10, buffer_id = 7, crtc_x = 0, crtc_y = 0,
      crtc_mode = hd_mode DRM_MODE_FLAG_3D_NONE\<rparr>"

definition frame_env :: "nat \<Rightarrow> u32 \<Rightarrow> swap_env" where
  "frame_env n fb =
     \<lparr>lock_front_buffer = Some (example_bo n), addfb_ret = 0, addfb_fb_id = fb,
      getcrtc = Some console_crtc, setcrtc_ret = 0, errno = 0, pageflip_ret = 0,
      events = [False, True]\<rparr>"

definition fresh_winsys :: stereo_winsys where
  "fresh_winsys = \<lparr>ws_dev = bound_dev, ws_context = \<lparr>current_fb_id = 0, current_bo = None\<rparr>\<rparr>"

definition showing_winsys :: stereo_winsys where
  "showing_winsys =
     \<lparr>ws_dev = bound_dev\<lparr>saved_crtc := Some console_crtc\<rparr>,
      ws_context = \<lparr>current_fb_id = 41, current_bo = Some (example_bo 1)\<rparr>\<rparr>"

definition own_crtc :: drmModeCrtc where
  "own_crtc =
     \<lparr>crtc_id = 10, buffer_id = 42, crtc_x = 0, crtc_y = 0,
      crtc_mode = hd_mode DRM_MODE_FLAG_3D_FRAME_PACKING\<rparr>"

section \<open>Properties\<close>

subsection \<open>Tags and ranks\<close>

lemma flag_3d_values:
  "DRM_MODE_FLAG_3D_NONE = 0"
  "DRM_MODE_FLAG_3D_FRAME_PACKING = 16384"
  "DRM_MODE_FLAG_3D_FIELD_ALTERNATIVE = 32768"
  "DRM_MODE_FLAG_3D_LINE_ALTERNATIVE = 49152"
  "DRM_MODE_FLAG_3D_SIDE_BY_SIDE_FULL = 65536"
  "DRM_MODE_FLAG_3D_L_DEPTH = 81920"
  "DRM_MODE_FLAG_3D_L_DEPTH_GFX_GFX_DEPTH = 98304"
  "DRM_MODE_FLAG_3D_TOP_AND_BOTTOM = 114688"
  "DRM_MODE_FLAG_3D_SIDE_BY_SIDE_HALF = 131072"
  "DRM_MODE_FLAG_3D_MASK = 507904"
  by (simp_all add: DRM_MODE_FLAG_3D_MASK_def DRM_MODE_FLAG_3D_NONE_def
      DRM_MODE_FLAG_3D_FRAME_PACKING_def DRM_MODE_FLAG_3D_FIELD_ALTERNATIVE_def
      DRM_MODE_FLAG_3D_LINE_ALTERNATIVE_def DRM_MODE_FLAG_3D_SIDE_BY_SIDE_FULL_def
      DRM_MODE_FLAG_3D_L_DEPTH_def DRM_MODE_FLAG_3D_L_DEPTH_GFX_GFX_DEPTH_def
      DRM_MODE_FLAG_3D_TOP_AND_BOTTOM_def DRM_MODE_FLAG_3D_SIDE_BY_SIDE_HALF_def)

lemma get_mode_rank_Some:
  "get_mode_rank (Some m) =
     (if flags_3d m = DRM_MODE_FLAG_3D_NONE then 0
      else if flags_3d m = DRM_MODE_FLAG_3D_SIDE_BY_SIDE_HALF then 1
      else if flags_3d m = DRM_MODE_FLAG_3D_TOP_AND_BOTTOM then 2
      else if flags_3d m = DRM_MODE_FLAG_3D_SIDE_BY_SIDE_FULL then 3
      else if flags_3d m = DRM_MODE_FLAG_3D_FRAME_PACKING then 4
      else - 1)"
  by (simp add: get_mode_rank_def ranks_def flag_3d_values)

lemma get_mode_rank_ge: "- 1 \<le> get_mode_rank md"
  by (cases md) (simp_all add: get_mode_rank_Some, simp add: get_mode_rank_def)

lemma is_chosen_mode_True:
  "is_chosen_mode m options old = Inr True \<longleftrightarrow>
     (stereo_layout options = None \<or> get_stereo_mode (flags_3d m) \<noteq> None) \<and>
     layout_requested options m \<and> get_mode_rank (Some m) \<noteq> - 1 \<and>
     get_mode_rank old < get_mode_rank (Some m)"
  by (auto simp add: is_chosen_mode_def layout_requested_def Let_def split: option.splits)

lemma is_chosen_mode_False:
  "is_chosen_mode m options old = Inr False \<longleftrightarrow>
     (stereo_layout options = None \<or> get_stereo_mode (flags_3d m) \<noteq> None) \<and>
     (layout_requested options m \<longrightarrow>
        get_mode_rank (Some m) = - 1 \<or> get_mode_rank (Some m) \<le> get_mode_rank old)"
  by (auto simp add: is_chosen_mode_def layout_requested_def Let_def split: option.splits)

lemma is_chosen_mode_fault:
  "is_chosen_mode m options old = Inl f \<longleftrightarrow>
     f = NullDereference \<and> stereo_layout options \<noteq> None \<and> get_stereo_mode (flags_3d m) = None"
  by (auto simp add: is_chosen_mode_def layout_requested_def Let_def split: option.splits)

lemma find_mode_loop_total:
  "stereo_layout options = None \<or> (\<forall>x\<in>set ms. get_stereo_mode (flags_3d x) \<noteq> None) \<Longrightarrow>
   \<exists>r. find_mode_loop options ms dev old = Inr r"
proof (induction ms arbitrary: dev old)
  case Nil
  then show ?case by simp
next
  case (Cons m ms)
  have "\<exists>b. is_chosen_mode m options old = Inr b"
    using Cons.prems by (cases "is_chosen_mode m options old") (auto simp add: is_chosen_mode_fault)
  then obtain b where b: "is_chosen_mode m options old = Inr b" ..
  have rest: "stereo_layout options = None \<or> (\<forall>x\<in>set ms. get_stereo_mode (flags_3d x) \<noteq> None)"
    using Cons.prems by auto
  show ?case
    using b Cons.IH [OF rest] by (cases b) simp_all
qed

lemma find_mode_loop_result:
  "find_mode_loop options ms dev old = Inr (dev', old') \<Longrightarrow>
   (old' = old \<and> dev' = dev \<and>
      (\<forall>x\<in>set ms. layout_requested options x \<longrightarrow> get_mode_rank (Some x) \<le> get_mode_rank old))
   \<or> (\<exists>pre m post. ms = pre @ m # post \<and> old' = Some m \<and> dev' = dev\<lparr>mode := m\<rparr> \<and>
         layout_requested options m \<and> get_mode_rank old < get_mode_rank (Some m) \<and>
         (\<forall>x\<in>set pre. layout_requested options x \<longrightarrow>
            get_mode_rank (Some x) < get_mode_rank (Some m)) \<and>
         (\<forall>x\<in>set post. layout_requested options x \<longrightarrow>
            get_mode_rank (Some x) \<le> get_mode_rank (Some m)))"
proof (induction ms arbitrary: dev old)
  case Nil
  then show ?case by simp
next
  case (Cons m ms)
  show ?case
  proof (cases "is_chosen_mode m options old")
    case (Inl f)
    with Cons.prems show ?thesis by simp
  next
    case (Inr b)
    show ?thesis
    proof (cases b)
      case True
      with Inr have chosen: "is_chosen_mode m options old = Inr True" by simp
      then have run: "find_mode_loop options ms (dev\<lparr>mode := m\<rparr>) (Some m) = Inr (dev', old')"
        using Cons.prems by simp
      from chosen have req: "layout_requested options m"
        and gt: "get_mode_rank old < get_mode_rank (Some m)"
        by (simp_all add: is_chosen_mode_True)
      from Cons.IH [OF run] show ?thesis
      proof
        assume same: "old' = Some m \<and> dev' = dev\<lparr>mode := m\<rparr> \<and>
          (\<forall>x\<in>set ms. layout_requested options x \<longrightarrow>
             get_mode_rank (Some x) \<le> get_mode_rank (Some m))"
        show ?thesis
          by (rule disjI2, rule exI [of _ "[]"], rule exI [of _ m], rule exI [of _ ms])
            (use same req gt in simp)
      next
        assume "\<exists>pre m' post. ms = pre @ m' # post \<and> old' = Some m' \<and>
          dev' = dev\<lparr>mode := m\<rparr>\<lparr>mode := m'\<rparr> \<and> layout_requested options m' \<and>
          get_mode_rank (Some m) < get_mode_rank (Some m') \<and>
          (\<forall>x\<in>set pre. layout_requested options x \<longrightarrow>
             get_mode_rank (Some x) < get_mode_rank (Some m')) \<and>
          (\<forall>x\<in>set post. layout_requested options x \<longrightarrow>
             get_mode_rank (Some x) \<le> get_mode_rank (Some m'))"
        then obtain pre m' post where d: "ms = pre @ m' # post" "old' = Some m'"
          "dev' = dev\<lparr>mode := m\<rparr>\<lparr>mode := m'\<rparr>" "layout_requested options m'"
          "get_mode_rank (Some m) < get_mode_rank (Some m')"
          "\<forall>x\<in>set pre. layout_requested options x \<longrightarrow>
             get_mode_rank (Some x) < get_mode_rank (Some m')"
          "\<forall>x\<in>set post. layout_requested options x \<longrightarrow>
             get_mode_rank (Some x) \<le> get_mode_rank (Some m')"
          by blast
        have 1: "m # ms = (m # pre) @ m' # post" using d(1) by simp
        have 2: "dev' = dev\<lparr>mode := m'\<rparr>" using d(3) by simp
        have 3: "get_mode_rank old < get_mode_rank (Some m')" using gt d(5) by simp
        have 4: "\<forall>x\<in>set (m # pre). layout_requested options x \<longrightarrow>
             get_mode_rank (Some x) < get_mode_rank (Some m')"
          using d(5,6) by simp
        show ?thesis
          by (rule disjI2, rule exI [of _ "m # pre"], rule exI [of _ m'], rule exI [of _ post])
            (use 1 2 3 4 d(2,4,7) in simp)
      qed
    next
      case False
      with Inr have skipped: "is_chosen_mode m options old = Inr False" by simp
      then have run: "find_mode_loop options ms dev old = Inr (dev', old')"
        using Cons.prems by simp
      from skipped have le: "layout_requested options m \<longrightarrow>
          get_mode_rank (Some m) \<le> get_mode_rank old"
        using get_mode_rank_ge [of old] by (auto simp add: is_chosen_mode_False)
      from Cons.IH [OF run] show ?thesis
      proof
        assume "old' = old \<and> dev' = dev \<and>
          (\<forall>x\<in>set ms. layout_requested options x \<longrightarrow>
             get_mode_rank (Some x) \<le> get_mode_rank old)"
        with le show ?thesis by simp
      next
        assume "\<exists>pre m' post. ms = pre @ m' # post \<and> old' = Some m' \<and>
          dev' = dev\<lparr>mode := m'\<rparr> \<and> layout_requested options m' \<and>
          get_mode_rank old < get_mode_rank (Some m') \<and>
          (\<forall>x\<in>set pre. layout_requested options x \<longrightarrow>
             get_mode_rank (Some x) < get_mode_rank (Some m')) \<and>
          (\<forall>x\<in>set post. layout_requested options x \<longrightarrow>
             get_mode_rank (Some x) \<le> get_mode_rank (Some m'))"
        then obtain pre m' post where d: "ms = pre @ m' # post" "old' = Some m'"
          "dev' = dev\<lparr>mode := m'\<rparr>" "layout_requested options m'"
          "get_mode_rank old < get_mode_rank (Some m')"
          "\<forall>x\<in>set pre. layout_requested options x \<longrightarrow>
             get_mode_rank (Some x) < get_mode_rank (Some m')"
          "\<forall>x\<in>set post. layout_requested options x \<longrightarrow>
             get_mode_rank (Some x) \<le> get_mode_rank (Some m')"
          by blast
        have 1: "m # ms = (m # pre) @ m' # post" using d(1) by simp
        have 4: "\<forall>x\<in>set (m # pre). layout_requested options x \<longrightarrow>
             get_mode_rank (Some x) < get_mode_rank (Some m')"
          using d(5,6) le by auto
        show ?thesis
          by (rule disjI2, rule exI [of _ "m # pre"], rule exI [of _ m'], rule exI [of _ post])
            (use 1 4 d(2,3,4,5,7) in simp)
      qed
    qed
  qed
qed


subsection \<open>The selected mode\<close>

lemma find_mode_result:
  "find_mode dev ms options = Inr (ret, dev') \<Longrightarrow>
   (ret = - ENOENT \<and> dev' = dev \<and>
      (\<forall>x\<in>set ms. layout_requested options x \<longrightarrow> get_mode_rank (Some x) = - 1))
   \<or> (ret = 0 \<and>
       (\<exists>pre m post. ms = pre @ m # post \<and> dev' = dev\<lparr>mode := m\<rparr> \<and>
         layout_requested options m \<and> 0 \<le> get_mode_rank (Some m) \<and>
         (\<forall>x\<in>set pre. layout_requested options x \<longrightarrow>
            get_mode_rank (Some x) < get_mode_rank (Some m)) \<and>
         (\<forall>x\<in>set post. layout_requested options x \<longrightarrow>
            get_mode_rank (Some x) \<le> get_mode_rank (Some m))))"
proof -
  assume a: "find_mode dev ms options = Inr (ret, dev')"
  then obtain old' where run: "find_mode_loop options ms dev None = Inr (dev', old')"
    and ret: "ret = (if old' \<noteq> None then 0 else - ENOENT)"
    by (auto simp add: find_mode_def split: sum.splits)
  have none: "get_mode_rank None = - 1" by (simp add: get_mode_rank_def)
  from find_mode_loop_result [OF run] show ?thesis
  proof
    assume "old' = None \<and> dev' = dev \<and>
      (\<forall>x\<in>set ms. layout_requested options x \<longrightarrow> get_mode_rank (Some x) \<le> get_mode_rank None)"
    then have "old' = None" "dev' = dev"
      and "\<forall>x\<in>set ms. layout_requested options x \<longrightarrow> get_mode_rank (Some x) = - 1"
      using get_mode_rank_ge none by (simp_all add: antisym)
    with ret show ?thesis by simp
  next
    assume "\<exists>pre m post. ms = pre @ m # post \<and> old' = Some m \<and> dev' = dev\<lparr>mode := m\<rparr> \<and>
         layout_requested options m \<and> get_mode_rank None < get_mode_rank (Some m) \<and>
         (\<forall>x\<in>set pre. layout_requested options x \<longrightarrow>
            get_mode_rank (Some x) < get_mode_rank (Some m)) \<and>
         (\<forall>x\<in>set post. layout_requested options x \<longrightarrow>
            get_mode_rank (Some x) \<le> get_mode_rank (Some m))"
    then obtain pre m post where d: "ms = pre @ m # post" "old' = Some m"
       "dev' = dev\<lparr>mode := m\<rparr>" "layout_requested options m"
       "get_mode_rank None < get_mode_rank (Some m)"
       "\<forall>x\<in>set pre. layout_requested options x \<longrightarrow>
            get_mode_rank (Some x) < get_mode_rank (Some m)"
       "\<forall>x\<in>set post. layout_requested options x \<longrightarrow>
            get_mode_rank (Some x) \<le> get_mode_rank (Some m)"
      by blast
    have r0: "ret = 0" using ret d(2) by simp
    have pos: "0 \<le> get_mode_rank (Some m)" using d(5) none by simp
    show ?thesis
      by (rule disjI2, rule conjI [OF r0], rule exI [of _ pre], rule exI [of _ m],
          rule exI [of _ post]) (use d pos in simp)
  qed
qed

lemma find_mode_total:
  "stereo_layout options = None \<or> (\<forall>x\<in>set ms. get_stereo_mode (flags_3d x) \<noteq> None) \<Longrightarrow>
   \<exists>ret dev'. find_mode dev ms options = Inr (ret, dev')"
proof -
  assume "stereo_layout options = None \<or> (\<forall>x\<in>set ms. get_stereo_mode (flags_3d x) \<noteq> None)"
  from find_mode_loop_total [OF this, of dev None]
  obtain r where "find_mode_loop options ms dev None = Inr r" ..
  then show ?thesis by (cases r) (simp add: find_mode_def)
qed

text \<open>
  Claim C2. The rank of a mode is 0 without packing, 1 for side-by-side-half, 2 for
  top-and-bottom, 3 for side-by-side-full, 4 for frame packing and \<open>-1\<close> for every
  other tag. A mode replaces the running best only when its rank is not \<open>-1\<close> and is
  strictly higher than the rank of the running best. So \<^verbatim>\<open>find_mode\<close>, which never
  faults when no layout is requested or every tag is in the table of names, either
  returns \<open>-ENOENT\<close> and leaves the device as it was, when every mode that passes the
  layout filter has rank \<open>-1\<close>; or it returns 0 and stores a mode of rank at least 0
  that passes the filter, such that every filtered mode before it in the list has a
  strictly lower rank and every filtered mode after it has a rank that is not higher:
  the first mode of maximal rank.
\<close>

theorem find_mode_first_of_highest_rank:
  assumes "stereo_layout options = None \<or> (\<forall>x\<in>set ms. get_stereo_mode (flags_3d x) \<noteq> None)"
  shows
   "get_mode_rank (Some m0) =
      (if flags_3d m0 = DRM_MODE_FLAG_3D_NONE then 0
       else if flags_3d m0 = DRM_MODE_FLAG_3D_SIDE_BY_SIDE_HALF then 1
       else if flags_3d m0 = DRM_MODE_FLAG_3D_TOP_AND_BOTTOM then 2
       else if flags_3d m0 = DRM_MODE_FLAG_3D_SIDE_BY_SIDE_FULL then 3
       else if flags_3d m0 = DRM_MODE_FLAG_3D_FRAME_PACKING then 4
       else - 1) \<and>
    (is_chosen_mode m0 options old = Inr True \<longrightarrow>
       get_mode_rank (Some m0) \<noteq> - 1 \<and> get_mode_rank old < get_mode_rank (Some m0)) \<and>
    ((find_mode dev ms options = Inr (- ENOENT, dev) \<and>
        (\<forall>x\<in>set ms. layout_requested options x \<longrightarrow> get_mode_rank (Some x) = - 1))
     \<or> (\<exists>pre m post. ms = pre @ m # post \<and>
           find_mode dev ms options = Inr (0, dev\<lparr>mode := m\<rparr>) \<and>
           layout_requested options m \<and> 0 \<le> get_mode_rank (Some m) \<and>
           (\<forall>x\<in>set pre. layout_requested options x \<longrightarrow>
              get_mode_rank (Some x) < get_mode_rank (Some m)) \<and>
           (\<forall>x\<in>set post. layout_requested options x \<longrightarrow>
              get_mode_rank (Some x) \<le> get_mode_rank (Some m))))"
proof (intro conjI)
  show "get_mode_rank (Some m0) =
      (if flags_3d m0 = DRM_MODE_FLAG_3D_NONE then 0
       else if flags_3d m0 = DRM_MODE_FLAG_3D_SIDE_BY_SIDE_HALF then 1
       else if flags_3d m0 = DRM_MODE_FLAG_3D_TOP_AND_BOTTOM then 2
       else if flags_3d m0 = DRM_MODE_FLAG_3D_SIDE_BY_SIDE_FULL then 3
       else if flags_3d m0 = DRM_MODE_FLAG_3D_FRAME_PACKING then 4
       else - 1)"
    by (rule get_mode_rank_Some)
next
  show "is_chosen_mode m0 options old = Inr True \<longrightarrow>
       get_mode_rank (Some m0) \<noteq> - 1 \<and> get_mode_rank old < get_mode_rank (Some m0)"
    by (simp add: is_chosen_mode_True)
next
  from find_mode_total [OF assms, of dev] obtain ret dev'
    where r: "find_mode dev ms options = Inr (ret, dev')" by blast
  from find_mode_result [OF r] show "(find_mode dev ms options = Inr (- ENOENT, dev) \<and>
        (\<forall>x\<in>set ms. layout_requested options x \<longrightarrow> get_mode_rank (Some x) = - 1))
     \<or> (\<exists>pre m post. ms = pre @ m # post \<and>
           find_mode dev ms options = Inr (0, dev\<lparr>mode := m\<rparr>) \<and>
           layout_requested options m \<and> 0 \<le> get_mode_rank (Some m) \<and>
           (\<forall>x\<in>set pre. layout_requested options x \<longrightarrow>
              get_mode_rank (Some x) < get_mode_rank (Some m)) \<and>
           (\<forall>x\<in>set post. layout_requested options x \<longrightarrow>
              get_mode_rank (Some x) \<le> get_mode_rank (Some m)))"
    using r by auto
qed

text \<open>
  The theorem at six advertised modes with two frame-packed ones: the first of them is
  chosen, whichever of the two comes first; a list of unranked modes gives
  \<open>-ENOENT\<close>.
\<close>

theorem find_mode_first_of_highest_rank_witness:
  "stereo_layout \<lparr>card_path = None, stereo_layout = None, connector = 0\<rparr> = None \<and>
   find_mode zero_dev
     [hd_mode DRM_MODE_FLAG_3D_NONE, hd_mode DRM_MODE_FLAG_3D_SIDE_BY_SIDE_HALF,
      hd_mode DRM_MODE_FLAG_3D_FRAME_PACKING, hd_mode DRM_MODE_FLAG_3D_L_DEPTH,
      hd_mode DRM_MODE_FLAG_3D_TOP_AND_BOTTOM, odd_mode DRM_MODE_FLAG_3D_FRAME_PACKING]
     \<lparr>card_path = None, stereo_layout = None, connector = 0\<rparr> =
     Inr (0, zero_dev\<lparr>mode := hd_mode DRM_MODE_FLAG_3D_FRAME_PACKING\<rparr>) \<and>
   find_mode zero_dev
     [odd_mode DRM_MODE_FLAG_3D_FRAME_PACKING, hd_mode DRM_MODE_FLAG_3D_FRAME_PACKING]
     \<lparr>card_path = None, stereo_layout = None, connector = 0\<rparr> =
     Inr (0, zero_dev\<lparr>mode := odd_mode DRM_MODE_FLAG_3D_FRAME_PACKING\<rparr>) \<and>
   get_mode_rank (Some (hd_mode DRM_MODE_FLAG_3D_FRAME_PACKING)) = 4 \<and>
   get_mode_rank (Some (odd_mode DRM_MODE_FLAG_3D_FRAME_PACKING)) = 4 \<and>
   get_mode_rank (Some (hd_mode DRM_MODE_FLAG_3D_L_DEPTH)) = - 1 \<and>
   find_mode zero_dev [hd_mode DRM_MODE_FLAG_3D_L_DEPTH, hd_mode DRM_MODE_FLAG_3D_LINE_ALTERNATIVE]
     \<lparr>card_path = None, stereo_layout = None, connector = 0\<rparr> = Inr (- ENOENT, zero_dev)"
  using
    find_mode_first_of_highest_rank
      [of "\<lparr>card_path = None, stereo_layout = None, connector = 0\<rparr>"
        "[hd_mode DRM_MODE_FLAG_3D_NONE, hd_mode DRM_MODE_FLAG_3D_SIDE_BY_SIDE_HALF,
          hd_mode DRM_MODE_FLAG_3D_FRAME_PACKING, hd_mode DRM_MODE_FLAG_3D_L_DEPTH,
          hd_mode DRM_MODE_FLAG_3D_TOP_AND_BOTTOM, odd_mode DRM_MODE_FLAG_3D_FRAME_PACKING]"
        "hd_mode DRM_MODE_FLAG_3D_FRAME_PACKING" None zero_dev]
  by (simp add: hd_mode_def odd_mode_def flags_3d_def Let_def flag_3d_values
      find_mode_def is_chosen_mode_def get_mode_rank_def ranks_def zero_dev_def)

subsection \<open>A requested layout that no mode has\<close>

lemma find_mode_loop_unmatched:
  "stereo_layout options = Some l \<Longrightarrow>
   \<forall>x\<in>set ms. \<exists>s. get_stereo_mode (flags_3d x) = Some s \<and> short_name s \<noteq> l \<Longrightarrow>
   find_mode_loop options ms dev old = Inr (dev, old)"
proof (induction ms)
  case Nil
  then show ?case by simp
next
  case (Cons m ms)
  from Cons.prems obtain s where "get_stereo_mode (flags_3d m) = Some s" "short_name s \<noteq> l"
    by auto
  with Cons.prems(1) have "is_chosen_mode m options old = Inr False"
    by (simp add: is_chosen_mode_def Let_def)
  with Cons show ?case by simp
qed

text \<open>
  Claim C4. When a layout name is requested and every advertised mode has a packing
  whose short name differs from it, \<^verbatim>\<open>find_mode\<close> returns \<open>-ENOENT\<close> and
  leaves the device as it was, whatever the ranks of the advertised modes.
\<close>

theorem find_mode_unmatched_layout_not_found:
  assumes "stereo_layout options = Some l"
    and "\<forall>x\<in>set ms. \<exists>s. get_stereo_mode (flags_3d x) = Some s \<and> short_name s \<noteq> l"
  shows "find_mode dev ms options = Inr (- ENOENT, dev)"
proof -
  have "find_mode_loop options ms dev None = Inr (dev, None)"
    using assms by (rule find_mode_loop_unmatched)
  then show ?thesis by (simp add: find_mode_def)
qed

text \<open>
  The theorem at a connector that advertises an unpacked and a frame-packed mode (rank
  4) while top-and-bottom is requested.
\<close>

theorem find_mode_unmatched_layout_not_found_witness:
  "stereo_layout \<lparr>card_path = None, stereo_layout = Some ''tb'', connector = 0\<rparr> = Some ''tb'' \<and>
   get_stereo_mode (flags_3d (hd_mode DRM_MODE_FLAG_3D_FRAME_PACKING)) =
     Some \<lparr>mode_number = DRM_MODE_FLAG_3D_FRAME_PACKING, short_name = ''fp'',
       long_name = ''frame packing''\<rparr> \<and>
   get_stereo_mode (flags_3d (hd_mode DRM_MODE_FLAG_3D_NONE)) =
     Some \<lparr>mode_number = DRM_MODE_FLAG_3D_NONE, short_name = ''none'', long_name = ''none''\<rparr> \<and>
   get_mode_rank (Some (hd_mode DRM_MODE_FLAG_3D_FRAME_PACKING)) = 4 \<and>
   find_mode zero_dev [hd_mode DRM_MODE_FLAG_3D_NONE, hd_mode DRM_MODE_FLAG_3D_FRAME_PACKING]
     \<lparr>card_path = None, stereo_layout = Some ''tb'', connector = 0\<rparr> = Inr (- ENOENT, zero_dev)"
  using find_mode_unmatched_layout_not_found
    [of "\<lparr>card_path = None, stereo_layout = Some ''tb'', connector = 0\<rparr>" "''tb''"
      "[hd_mode DRM_MODE_FLAG_3D_NONE, hd_mode DRM_MODE_FLAG_3D_FRAME_PACKING]" zero_dev]
  by (simp add: get_stereo_mode_def stereo_modes_def flags_3d_def hd_mode_def flag_3d_values
      get_mode_rank_Some)

subsection \<open>The layout is defined for the ranked tags\<close>

lemma rank_table_iff:
  "get_mode_rank (Some m) \<noteq> - 1 \<longleftrightarrow>
     flags_3d m \<in> {DRM_MODE_FLAG_3D_NONE, DRM_MODE_FLAG_3D_SIDE_BY_SIDE_HALF,
       DRM_MODE_FLAG_3D_SIDE_BY_SIDE_FULL, DRM_MODE_FLAG_3D_TOP_AND_BOTTOM,
       DRM_MODE_FLAG_3D_FRAME_PACKING}"
  by (simp add: get_mode_rank_Some flag_3d_values)

lemma get_layout_for_mode_Inr_iff:
  "(\<exists>l. get_layout_for_mode m = Inr l) \<longleftrightarrow> get_mode_rank (Some m) \<noteq> - 1"
  by (simp add: rank_table_iff) (simp add: get_layout_for_mode_def Let_def)

lemma get_layout_for_mode_Inl_iff:
  "get_layout_for_mode m = Inl f \<longleftrightarrow> f = AssertionFailure \<and> get_mode_rank (Some m) = - 1"
  using rank_table_iff [of m] by (auto simp add: get_layout_for_mode_def Let_def)

lemma stereo_find_crtc_no_assert:
  "stereo_find_crtc k res c dev \<noteq> Inl AssertionFailure"
  by (simp add: stereo_find_crtc_def Let_def split: option.splits)

lemma find_mode_no_assert: "find_mode dev ms options \<noteq> Inl AssertionFailure"
proof
  assume "find_mode dev ms options = Inl AssertionFailure"
  then have "find_mode_loop options ms dev None = Inl AssertionFailure"
    by (simp add: find_mode_def split: sum.splits prod.splits)
  moreover have "find_mode_loop options ms dev old \<noteq> Inl AssertionFailure" for old
  proof (induction ms arbitrary: dev old)
    case Nil
    show ?case by simp
  next
    case (Cons m ms)
    show ?case
    proof (cases "is_chosen_mode m options old")
      case (Inl f)
      then have "f = NullDereference" by (simp add: is_chosen_mode_fault)
      with Inl show ?thesis by simp
    next
      case (Inr b)
      then show ?thesis using Cons.IH by (cases b) simp_all
    qed
  qed
  ultimately show False by simp
qed

lemma find_mode_chosen_ranked:
  "find_mode dev ms options = Inr (0, dev1) \<Longrightarrow> get_mode_rank (Some (mode dev1)) \<noteq> - 1"
  using find_mode_result [of dev ms options 0 dev1] by (auto simp add: ENOENT_def)

text \<open>
  Claim C1, as amended. \<^verbatim>\<open>get_layout_for_mode\<close> produces a geometry for the five
  tags that have a rank (None, SideBySideHalf, SideBySideFull, TopAndBottom,
  FramePacking) and reaches the assertion for every other tag. The mode that
  \<^verbatim>\<open>find_mode\<close> stores when it returns 0 has one of the five tags, so its layout is
  defined and \<^verbatim>\<open>stereo_setup_dev\<close>, the only caller, never ends in the assertion.
\<close>

theorem get_layout_for_mode_defined_when_ranked:
  "(flags_3d m \<in> {DRM_MODE_FLAG_3D_NONE, DRM_MODE_FLAG_3D_SIDE_BY_SIDE_HALF,
       DRM_MODE_FLAG_3D_SIDE_BY_SIDE_FULL, DRM_MODE_FLAG_3D_TOP_AND_BOTTOM,
       DRM_MODE_FLAG_3D_FRAME_PACKING} \<longrightarrow> (\<exists>l. get_layout_for_mode m = Inr l)) \<and>
   (flags_3d m \<notin> {DRM_MODE_FLAG_3D_NONE, DRM_MODE_FLAG_3D_SIDE_BY_SIDE_HALF,
       DRM_MODE_FLAG_3D_SIDE_BY_SIDE_FULL, DRM_MODE_FLAG_3D_TOP_AND_BOTTOM,
       DRM_MODE_FLAG_3D_FRAME_PACKING} \<longrightarrow> get_layout_for_mode m = Inl AssertionFailure) \<and>
   (find_mode dev ms options = Inr (0, dev1) \<longrightarrow> (\<exists>l. get_layout_for_mode (mode dev1) = Inr l)) \<and>
   stereo_setup_dev k res c options dev \<noteq> Inl AssertionFailure"
proof (intro conjI)
  show "flags_3d m \<in> {DRM_MODE_FLAG_3D_NONE, DRM_MODE_FLAG_3D_SIDE_BY_SIDE_HALF,
       DRM_MODE_FLAG_3D_SIDE_BY_SIDE_FULL, DRM_MODE_FLAG_3D_TOP_AND_BOTTOM,
       DRM_MODE_FLAG_3D_FRAME_PACKING} \<longrightarrow> (\<exists>l. get_layout_for_mode m = Inr l)"
    by (simp only: get_layout_for_mode_Inr_iff rank_table_iff) simp
next
  show "flags_3d m \<notin> {DRM_MODE_FLAG_3D_NONE, DRM_MODE_FLAG_3D_SIDE_BY_SIDE_HALF,
       DRM_MODE_FLAG_3D_SIDE_BY_SIDE_FULL, DRM_MODE_FLAG_3D_TOP_AND_BOTTOM,
       DRM_MODE_FLAG_3D_FRAME_PACKING} \<longrightarrow> get_layout_for_mode m = Inl AssertionFailure"
    by (simp only: get_layout_for_mode_Inl_iff rank_table_iff [symmetric]) simp
next
  show "find_mode dev ms options = Inr (0, dev1) \<longrightarrow> (\<exists>l. get_layout_for_mode (mode dev1) = Inr l)"
    by (simp only: get_layout_for_mode_Inr_iff) (simp add: find_mode_chosen_ranked)
next
  show "stereo_setup_dev k res c options dev \<noteq> Inl AssertionFailure"
  proof (cases "find_mode dev (modes c) options")
    case (Inl f)
    then have "f \<noteq> AssertionFailure" using find_mode_no_assert [of dev "modes c" options] by auto
    with Inl show ?thesis by (simp add: stereo_setup_dev_def)
  next
    case (Inr r)
    obtain ret dev1 where r: "r = (ret, dev1)" by (cases r)
    show ?thesis
    proof (cases "ret = 0")
      case True
      with Inr r have "get_mode_rank (Some (mode dev1)) \<noteq> - 1"
        by (simp add: find_mode_chosen_ranked)
      then obtain l where "get_layout_for_mode (mode dev1) = Inr l"
        using get_layout_for_mode_Inr_iff by blast
      with Inr r True show ?thesis
        by (simp add: stereo_setup_dev_def stereo_find_crtc_no_assert split: option.splits)
    next
      case False
      with Inr r show ?thesis by (simp add: stereo_setup_dev_def)
    qed
  qed
qed

text \<open>
  The theorem at a top-and-bottom mode, at an L-depth mode, and at a connector that
  advertises both.
\<close>

theorem get_layout_for_mode_defined_when_ranked_witness:
  "flags_3d (hd_mode DRM_MODE_FLAG_3D_TOP_AND_BOTTOM) \<in>
     {DRM_MODE_FLAG_3D_NONE, DRM_MODE_FLAG_3D_SIDE_BY_SIDE_HALF,
       DRM_MODE_FLAG_3D_SIDE_BY_SIDE_FULL, DRM_MODE_FLAG_3D_TOP_AND_BOTTOM,
       DRM_MODE_FLAG_3D_FRAME_PACKING} \<and>
   get_layout_for_mode (hd_mode DRM_MODE_FLAG_3D_TOP_AND_BOTTOM) =
     Inr \<lparr>buffer_width = 1920, buffer_height = 1080, eye_width = 1920, eye_height = 540,
          virtual_eye_width = 1920, virtual_eye_height = 1080,
          right_eye_x = 0, left_eye_y = 540\<rparr> \<and>
   flags_3d (hd_mode DRM_MODE_FLAG_3D_L_DEPTH) \<notin>
     {DRM_MODE_FLAG_3D_NONE, DRM_MODE_FLAG_3D_SIDE_BY_SIDE_HALF,
       DRM_MODE_FLAG_3D_SIDE_BY_SIDE_FULL, DRM_MODE_FLAG_3D_TOP_AND_BOTTOM,
       DRM_MODE_FLAG_3D_FRAME_PACKING} \<and>
   get_layout_for_mode (hd_mode DRM_MODE_FLAG_3D_L_DEPTH) = Inl AssertionFailure \<and>
   find_mode zero_dev [hd_mode DRM_MODE_FLAG_3D_L_DEPTH, hd_mode DRM_MODE_FLAG_3D_TOP_AND_BOTTOM]
     \<lparr>card_path = None, stereo_layout = None, connector = 0\<rparr> =
     Inr (0, zero_dev\<lparr>mode := hd_mode DRM_MODE_FLAG_3D_TOP_AND_BOTTOM\<rparr>)"
  using
    get_layout_for_mode_defined_when_ranked [of "hd_mode DRM_MODE_FLAG_3D_TOP_AND_BOTTOM"
      zero_dev "[hd_mode DRM_MODE_FLAG_3D_L_DEPTH, hd_mode DRM_MODE_FLAG_3D_TOP_AND_BOTTOM]"
      "\<lparr>card_path = None, stereo_layout = None, connector = 0\<rparr>"
      "zero_dev\<lparr>mode := hd_mode DRM_MODE_FLAG_3D_TOP_AND_BOTTOM\<rparr>"]
    get_layout_for_mode_defined_when_ranked [of "hd_mode DRM_MODE_FLAG_3D_L_DEPTH"]
  by (simp add: get_layout_for_mode_def hd_mode_def flags_3d_def Let_def flag_3d_values
      find_mode_def is_chosen_mode_def get_mode_rank_def ranks_def)

text \<open>
  The claim as first stated fails for four tags of the enumeration: FieldAlternative,
  LineAlternative, LDepth and LDepthGfxGfxDepth reach the assertion.
\<close>

theorem get_layout_for_mode_unranked_counterexample:
  "get_layout_for_mode (hd_mode DRM_MODE_FLAG_3D_FIELD_ALTERNATIVE) = Inl AssertionFailure \<and>
   get_layout_for_mode (hd_mode DRM_MODE_FLAG_3D_LINE_ALTERNATIVE) = Inl AssertionFailure \<and>
   get_layout_for_mode (hd_mode DRM_MODE_FLAG_3D_L_DEPTH) = Inl AssertionFailure \<and>
   get_layout_for_mode (hd_mode DRM_MODE_FLAG_3D_L_DEPTH_GFX_GFX_DEPTH) = Inl AssertionFailure"
  by (simp add: get_layout_for_mode_def hd_mode_def flags_3d_def Let_def flag_3d_values)

subsection \<open>Arithmetic of the layout fields\<close>

lemma unat_ucast_16_32: "unat (ucast (x :: u16) :: u32) = unat x"
proof -
  have "unat x < 2 ^ 16" using unsigned_less [of x] by simp
  then have "unat x < 2 ^ 32" by simp
  then show ?thesis by (simp add: unsigned_ucast_eq take_bit_nat_eq_self)
qed

lemma unat_u16_bound: "unat (x :: u16) < 65536"
  using unsigned_less [of x] by simp

lemma unat_double_16_32: "unat ((ucast (x :: u16) :: u32) * 2) = unat x * 2"
proof -
  have "unat (ucast x :: u32) * unat (2 :: u32) < 2 ^ LENGTH(32)"
    using unat_u16_bound [of x] by (simp add: unat_ucast_16_32)
  then have "unat ((ucast x :: u32) * 2) = unat (ucast x :: u32) * unat (2 :: u32)"
    by (simp only: unat_mult_lem)
  then show ?thesis by (simp add: unat_ucast_16_32)
qed

lemma unat_half_16_32: "unat ((ucast (x :: u16) :: u32) div 2) = unat x div 2"
  by (simp add: unat_div unat_ucast_16_32)

lemma unat_sum_16_32:
  "unat ((ucast (x :: u16) :: u32) + ucast (y :: u16)) = unat x + unat y"
proof -
  have "unat (ucast x :: u32) + unat (ucast y :: u32) < 2 ^ LENGTH(32)"
    using unat_u16_bound [of x] unat_u16_bound [of y] by (simp add: unat_ucast_16_32)
  then have "unat ((ucast x :: u32) + ucast y) = unat (ucast x :: u32) + unat (ucast y :: u32)"
    by (simp only: unat_add_lem)
  then show ?thesis by (simp add: unat_ucast_16_32)
qed

lemmas unat_layout = unat_ucast_16_32 unat_double_16_32 unat_half_16_32 unat_sum_16_32

lemma half_double_word:
  "((ucast (x :: u16) :: u32) div 2) * 2 = ucast x \<longleftrightarrow> even (unat x)"
proof -
  have b: "unat ((ucast x :: u32) div 2) * unat (2 :: u32) < 2 ^ LENGTH(32)"
    using unat_u16_bound [of x] by (simp add: unat_half_16_32)
  have "unat (((ucast x :: u32) div 2) * 2) = unat ((ucast x :: u32) div 2) * unat (2 :: u32)"
    using b by (simp only: unat_mult_lem)
  then have "unat (((ucast x :: u32) div 2) * 2) = unat x div 2 * 2"
    by (simp add: unat_half_16_32)
  moreover have "unat x div 2 * 2 = unat x \<longleftrightarrow> even (unat x)"
    by presburger
  ultimately show ?thesis
    by (simp add: word_unat_eq_iff unat_ucast_16_32)
qed

subsection \<open>Layout identities\<close>

text \<open>
  Claim C3, as amended. For every mode with a computed layout: with side-by-side-full
  packing the eye width doubled is the buffer width; with side-by-side-half packing the
  eye width doubled is the buffer width exactly when the active width is even (one pixel
  is lost to the integer division otherwise); with top-and-bottom packing the same holds
  for the heights; with frame packing the buffer height is the total height plus the
  active height. The equalities are between the 32-bit fields and between their values
  as natural numbers.
\<close>

theorem layout_size_identities:
  "get_layout_for_mode m = Inr l \<Longrightarrow>
     (flags_3d m = DRM_MODE_FLAG_3D_SIDE_BY_SIDE_FULL \<longrightarrow>
        eye_width l * 2 = buffer_width l \<and>
        unat (eye_width l) * 2 = unat (buffer_width l)) \<and>
     (flags_3d m = DRM_MODE_FLAG_3D_SIDE_BY_SIDE_HALF \<longrightarrow>
        (eye_width l * 2 = buffer_width l \<longleftrightarrow> even (unat (hdisplay m))) \<and>
        unat (eye_width l) * 2 + unat (hdisplay m) mod 2 = unat (buffer_width l)) \<and>
     (flags_3d m = DRM_MODE_FLAG_3D_TOP_AND_BOTTOM \<longrightarrow>
        (eye_height l * 2 = buffer_height l \<longleftrightarrow> even (unat (vdisplay m))) \<and>
        unat (eye_height l) * 2 + unat (vdisplay m) mod 2 = unat (buffer_height l)) \<and>
     (flags_3d m = DRM_MODE_FLAG_3D_FRAME_PACKING \<longrightarrow>
        unat (buffer_height l) = unat (vtotal m) + unat (vdisplay m))"
  by (auto simp add: get_layout_for_mode_def Let_def flag_3d_values unat_layout half_double_word
      split: if_splits)

text \<open>
  The theorem at four 1920x1080 modes, one for each packing it speaks of.
\<close>

theorem layout_size_identities_witness:
  "(get_layout_for_mode (hd_mode DRM_MODE_FLAG_3D_SIDE_BY_SIDE_FULL) =
      Inr \<lparr>buffer_width = 3840, buffer_height = 1080, eye_width = 1920, eye_height = 1080,
           virtual_eye_width = 1920, virtual_eye_height = 1080,
           right_eye_x = 1920, left_eye_y = 0\<rparr> \<and>
    flags_3d (hd_mode DRM_MODE_FLAG_3D_SIDE_BY_SIDE_FULL) = DRM_MODE_FLAG_3D_SIDE_BY_SIDE_FULL \<and>
    (1920 :: u32) * 2 = 3840) \<and>
   (get_layout_for_mode (hd_mode DRM_MODE_FLAG_3D_SIDE_BY_SIDE_HALF) =
      Inr \<lparr>buffer_width = 1920, buffer_height = 1080, eye_width = 960, eye_height = 1080,
           virtual_eye_width = 1920, virtual_eye_height = 1080,
           right_eye_x = 960, left_eye_y = 0\<rparr> \<and>
    flags_3d (hd_mode DRM_MODE_FLAG_3D_SIDE_BY_SIDE_HALF) = DRM_MODE_FLAG_3D_SIDE_BY_SIDE_HALF \<and>
    even (unat (hdisplay (hd_mode DRM_MODE_FLAG_3D_SIDE_BY_SIDE_HALF))) \<and>
    (960 :: u32) * 2 = 1920) \<and>
   (get_layout_for_mode (hd_mode DRM_MODE_FLAG_3D_TOP_AND_BOTTOM) =
      Inr \<lparr>buffer_width = 1920, buffer_height = 1080, eye_width = 1920, eye_height = 540,
           virtual_eye_width = 1920, virtual_eye_height = 1080,
           right_eye_x = 0, left_eye_y = 540\<rparr> \<and>
    flags_3d (hd_mode DRM_MODE_FLAG_3D_TOP_AND_BOTTOM) = DRM_MODE_FLAG_3D_TOP_AND_BOTTOM \<and>
    even (unat (vdisplay (hd_mode DRM_MODE_FLAG_3D_TOP_AND_BOTTOM))) \<and>
    (540 :: u32) * 2 = 1080) \<and>
   (get_layout_for_mode (hd_mode DRM_MODE_FLAG_3D_FRAME_PACKING) =
      Inr \<lparr>buffer_width = 1920, buffer_height = 2205, eye_width = 1920, eye_height = 1080,
           virtual_eye_width = 1920, virtual_eye_height = 1080,
           right_eye_x = 0, left_eye_y = 1125\<rparr> \<and>
    flags_3d (hd_mode DRM_MODE_FLAG_3D_FRAME_PACKING) = DRM_MODE_FLAG_3D_FRAME_PACKING \<and>
    unat (2205 :: u32) =
      unat (vtotal (hd_mode DRM_MODE_FLAG_3D_FRAME_PACKING)) +
      unat (vdisplay (hd_mode DRM_MODE_FLAG_3D_FRAME_PACKING)))"
  using
    layout_size_identities [of "hd_mode DRM_MODE_FLAG_3D_SIDE_BY_SIDE_FULL"
      "\<lparr>buffer_width = 3840, buffer_height = 1080, eye_width = 1920, eye_height = 1080,
        virtual_eye_width = 1920, virtual_eye_height = 1080,
        right_eye_x = 1920, left_eye_y = 0\<rparr>"]
    layout_size_identities [of "hd_mode DRM_MODE_FLAG_3D_SIDE_BY_SIDE_HALF"
      "\<lparr>buffer_width = 1920, buffer_height = 1080, eye_width = 960, eye_height = 1080,
        virtual_eye_width = 1920, virtual_eye_height = 1080,
        right_eye_x = 960, left_eye_y = 0\<rparr>"]
    layout_size_identities [of "hd_mode DRM_MODE_FLAG_3D_TOP_AND_BOTTOM"
      "\<lparr>buffer_width = 1920, buffer_height = 1080, eye_width = 1920, eye_height = 540,
        virtual_eye_width = 1920, virtual_eye_height = 1080,
        right_eye_x = 0, left_eye_y = 540\<rparr>"]
    layout_size_identities [of "hd_mode DRM_MODE_FLAG_3D_FRAME_PACKING"
      "\<lparr>buffer_width = 1920, buffer_height = 2205, eye_width = 1920, eye_height = 1080,
        virtual_eye_width = 1920, virtual_eye_height = 1080,
        right_eye_x = 0, left_eye_y = 1125\<rparr>"]
  by (simp add: get_layout_for_mode_def hd_mode_def flags_3d_def Let_def flag_3d_values)

text \<open>
  The claim as first stated fails for an odd active size: a 1365x767 mode gets a
  682-pixel eye with side-by-side-half packing and a 383-line eye with top-and-bottom
  packing, and neither doubles to the buffer size.
\<close>

theorem layout_odd_size_counterexample:
  "get_layout_for_mode (odd_mode DRM_MODE_FLAG_3D_SIDE_BY_SIDE_HALF) =
     Inr \<lparr>buffer_width = 1365, buffer_height = 767, eye_width = 682, eye_height = 767,
          virtual_eye_width = 1365, virtual_eye_height = 767,
          right_eye_x = 682, left_eye_y = 0\<rparr> \<and>
   (682 :: u32) * 2 \<noteq> 1365 \<and>
   get_layout_for_mode (odd_mode DRM_MODE_FLAG_3D_TOP_AND_BOTTOM) =
     Inr \<lparr>buffer_width = 1365, buffer_height = 767, eye_width = 1365, eye_height = 383,
          virtual_eye_width = 1365, virtual_eye_height = 767,
          right_eye_x = 0, left_eye_y = 383\<rparr> \<and>
   (383 :: u32) * 2 \<noteq> 767"
  by (simp add: get_layout_for_mode_def odd_mode_def flags_3d_def Let_def flag_3d_values)

subsection \<open>Viewports\<close>

text \<open>
  Claim C10. For every mode with side-by-side-half, side-by-side-full, top-and-bottom or
  frame packing, the right eye's offset plus the eye width is at most the buffer width and
  the left eye's offset plus the eye height is at most the buffer height, so the
  rectangle that \<^verbatim>\<open>set_eye\<close> passes to \<^verbatim>\<open>glViewport\<close> for either eye lies
  inside the buffer. A right eye that ends beyond the buffer occurs only without stereo
  packing, where the right eye starts at the buffer width.
\<close>

theorem eye_viewports_inside_buffer:
  "get_layout_for_mode m = Inr l \<Longrightarrow>
     (flags_3d m \<in> {DRM_MODE_FLAG_3D_SIDE_BY_SIDE_HALF, DRM_MODE_FLAG_3D_SIDE_BY_SIDE_FULL,
                    DRM_MODE_FLAG_3D_TOP_AND_BOTTOM, DRM_MODE_FLAG_3D_FRAME_PACKING} \<longrightarrow>
        unat (right_eye_x l) + unat (eye_width l) \<le> unat (buffer_width l) \<and>
        unat (left_eye_y l) + unat (eye_height l) \<le> unat (buffer_height l) \<and>
        unat (vp_x (set_eye l eye)) + unat (vp_width (set_eye l eye)) \<le> unat (buffer_width l) \<and>
        unat (vp_y (set_eye l eye)) + unat (vp_height (set_eye l eye)) \<le> unat (buffer_height l)) \<and>
     (unat (buffer_width l) < unat (right_eye_x l) + unat (eye_width l) \<longrightarrow>
        flags_3d m = DRM_MODE_FLAG_3D_NONE) \<and>
     (flags_3d m = DRM_MODE_FLAG_3D_NONE \<longrightarrow> right_eye_x l = buffer_width l)"
  by (auto simp add: get_layout_for_mode_def Let_def flag_3d_values unat_layout set_eye_def
      split: if_splits)

text \<open>
  The theorem at a frame-packed 1920x1080 mode, whose eyes fill the 1920x2205 buffer, and
  at the same mode without packing, whose right eye starts at column 1920.
\<close>

theorem eye_viewports_inside_buffer_witness:
  "(get_layout_for_mode (hd_mode DRM_MODE_FLAG_3D_FRAME_PACKING) =
      Inr \<lparr>buffer_width = 1920, buffer_height = 2205, eye_width = 1920, eye_height = 1080,
           virtual_eye_width = 1920, virtual_eye_height = 1080,
           right_eye_x = 0, left_eye_y = 1125\<rparr> \<and>
    flags_3d (hd_mode DRM_MODE_FLAG_3D_FRAME_PACKING) = DRM_MODE_FLAG_3D_FRAME_PACKING \<and>
    unat (0 :: u32) + unat (1920 :: u32) \<le> unat (1920 :: u32) \<and>
    unat (1125 :: u32) + unat (1080 :: u32) \<le> unat (2205 :: u32)) \<and>
   (get_layout_for_mode (hd_mode DRM_MODE_FLAG_3D_NONE) =
      Inr \<lparr>buffer_width = 1920, buffer_height = 1080, eye_width = 1920, eye_height = 1080,
           virtual_eye_width = 1920, virtual_eye_height = 1080,
           right_eye_x = 1920, left_eye_y = 0\<rparr> \<and>
    flags_3d (hd_mode DRM_MODE_FLAG_3D_NONE) = DRM_MODE_FLAG_3D_NONE \<and>
    unat (1920 :: u32) < unat (1920 :: u32) + unat (1920 :: u32))"
  using
    eye_viewports_inside_buffer [of "hd_mode DRM_MODE_FLAG_3D_FRAME_PACKING"
      "\<lparr>buffer_width = 1920, buffer_height = 2205, eye_width = 1920, eye_height = 1080,
        virtual_eye_width = 1920, virtual_eye_height = 1080,
        right_eye_x = 0, left_eye_y = 1125\<rparr>" 0]
    eye_viewports_inside_buffer [of "hd_mode DRM_MODE_FLAG_3D_NONE"
      "\<lparr>buffer_width = 1920, buffer_height = 1080, eye_width = 1920, eye_height = 1080,
        virtual_eye_width = 1920, virtual_eye_height = 1080,
        right_eye_x = 1920, left_eye_y = 0\<rparr>" 1]
  by (simp add: get_layout_for_mode_def hd_mode_def flags_3d_def Let_def flag_3d_values)

subsection \<open>Discovery of the connector\<close>

lemma get_connector_loop_Some:
  "get_connector_loop k ids options = Some c \<Longrightarrow>
   \<exists>pre i post. ids = pre @ i # post \<and> drmModeGetConnector k i = Some c \<and>
     (connector options = 0 \<or> connector_id c = connector options) \<and>
     (\<forall>j\<in>set pre. connector_passed k options j)"
proof (induction ids)
  case Nil
  then show ?case by simp
next
  case (Cons a ids)
  show ?case
  proof (cases "drmModeGetConnector k a")
    case None
    with Cons.prems show ?thesis by simp
  next
    case (Some c')
    show ?thesis
    proof (cases "connector options = 0 \<or> connector_id c' = connector options")
      case True
      with Some Cons.prems have "c' = c" by simp
      with Some True show ?thesis
        by (intro exI [of _ "[]"] exI [of _ a] exI [of _ ids]) simp
    next
      case False
      with Some Cons.prems have "get_connector_loop k ids options = Some c" by simp
      from Cons.IH [OF this] obtain pre i post where d: "ids = pre @ i # post"
        "drmModeGetConnector k i = Some c"
        "connector options = 0 \<or> connector_id c = connector options"
        "\<forall>j\<in>set pre. connector_passed k options j"
        by blast
      have p: "connector_passed k options a"
        using Some False by (simp add: connector_passed_def)
      show ?thesis
        by (intro exI [of _ "a # pre"] exI [of _ i] exI [of _ post]) (use d p in simp)
    qed
  qed
qed

lemma get_connector_loop_None:
  "get_connector_loop k ids options = None \<Longrightarrow>
   (\<forall>j\<in>set ids. connector_passed k options j) \<or>
   (\<exists>pre i post. ids = pre @ i # post \<and> drmModeGetConnector k i = None \<and>
      (\<forall>j\<in>set pre. connector_passed k options j))"
proof (induction ids)
  case Nil
  then show ?case by simp
next
  case (Cons a ids)
  show ?case
  proof (cases "drmModeGetConnector k a")
    case None
    then show ?thesis
      by (intro disjI2 exI [of _ "[]"] exI [of _ a] exI [of _ ids]) simp
  next
    case (Some c')
    with Cons.prems have nomatch: "\<not> (connector options = 0 \<or> connector_id c' = connector options)"
      and rest: "get_connector_loop k ids options = None"
      by (simp_all split: if_splits)
    have p: "connector_passed k options a"
      using Some nomatch by (simp add: connector_passed_def)
    from Cons.IH [OF rest] show ?thesis
    proof
      assume "\<forall>j\<in>set ids. connector_passed k options j"
      with p show ?thesis by simp
    next
      assume "\<exists>pre i post. ids = pre @ i # post \<and> drmModeGetConnector k i = None \<and>
        (\<forall>j\<in>set pre. connector_passed k options j)"
      then obtain pre i post where d: "ids = pre @ i # post" "drmModeGetConnector k i = None"
        "\<forall>j\<in>set pre. connector_passed k options j" by blast
      show ?thesis
        by (intro disjI2 exI [of _ "a # pre"] exI [of _ i] exI [of _ post]) (use d p in simp)
    qed
  qed
qed

lemma stereo_find_crtc_conn:
  "stereo_find_crtc k res c dev = Inr (ret, dev') \<Longrightarrow> conn dev' = conn dev"
  by (auto simp add: stereo_find_crtc_def Let_def split: option.splits if_splits)

lemma find_mode_conn:
  "find_mode dev ms options = Inr (ret, dev') \<Longrightarrow> conn dev' = conn dev"
  using find_mode_result [of dev ms options ret dev'] by auto

lemma stereo_setup_dev_conn:
  "stereo_setup_dev k res c options dev = Inr (ret, dev') \<Longrightarrow> conn dev' = conn dev"
  by (auto simp add: stereo_setup_dev_def split: if_splits sum.splits option.splits
      dest!: find_mode_conn stereo_find_crtc_conn)

lemma stereo_setup_dev_connected:
  "stereo_setup_dev k res c options dev = Inr (0, dev') \<Longrightarrow> connection c = DRM_MODE_CONNECTED"
  by (auto simp add: stereo_setup_dev_def ENOENT_def split: if_splits)

lemmas eval_defs = stereo_prepare_dev_def two_connector_card_def get_connector_def
      stereo_setup_dev_def find_mode_def is_chosen_mode_def get_mode_rank_def ranks_def
      get_layout_for_mode_def get_stereo_mode_def stereo_modes_def stereo_find_crtc_def
      zero_dev_def zero_layout_def zero_mode_def hd_mode_def flags_3d_def Let_def flag_3d_values ENOENT_def

text \<open>
  Claim C5, as amended. \<^verbatim>\<open>get_connector\<close> returns the first enumerated connector
  that is retrieved and passes the identifier test (every connector passes when the
  identifier is 0), whatever its connection state; it returns NULL only when a connector
  before any match cannot be retrieved or when no connector passes. When the returned
  connector is not connected, \<^verbatim>\<open>stereo_prepare_dev\<close> fails; no later connector is
  tried. A device structure that \<^verbatim>\<open>stereo_prepare_dev\<close> returns is bound to the
  connector that \<^verbatim>\<open>get_connector\<close> returned, and that connector is connected.
\<close>

theorem stereo_prepare_dev_first_matching_connector:
  "(get_connector k res options = Some c \<longrightarrow>
      (\<exists>pre i post. connectors res = pre @ i # post \<and> drmModeGetConnector k i = Some c \<and>
         (connector options = 0 \<or> connector_id c = connector options) \<and>
         (\<forall>j\<in>set pre. connector_passed k options j))) \<and>
   (get_connector k res options = None \<longrightarrow>
      (\<forall>j\<in>set (connectors res). connector_passed k options j) \<or>
      (\<exists>pre i post. connectors res = pre @ i # post \<and> drmModeGetConnector k i = None \<and>
         (\<forall>j\<in>set pre. connector_passed k options j))) \<and>
   (drmModeGetResources k = Some res \<and> get_connector k res options = Some c \<and>
    connection c \<noteq> DRM_MODE_CONNECTED \<longrightarrow>
      stereo_prepare_dev fdn k options = Inr None) \<and>
   (stereo_prepare_dev fdn k options = Inr (Some dev) \<longrightarrow>
      (\<exists>res' c'. drmModeGetResources k = Some res' \<and> get_connector k res' options = Some c' \<and>
         connection c' = DRM_MODE_CONNECTED \<and> conn dev = connector_id c'))"
proof (intro conjI impI)
  assume "get_connector k res options = Some c"
  then show "\<exists>pre i post. connectors res = pre @ i # post \<and> drmModeGetConnector k i = Some c \<and>
         (connector options = 0 \<or> connector_id c = connector options) \<and>
         (\<forall>j\<in>set pre. connector_passed k options j)"
    unfolding get_connector_def by (rule get_connector_loop_Some)
next
  assume "get_connector k res options = None"
  then show "(\<forall>j\<in>set (connectors res). connector_passed k options j) \<or>
      (\<exists>pre i post. connectors res = pre @ i # post \<and> drmModeGetConnector k i = None \<and>
         (\<forall>j\<in>set pre. connector_passed k options j))"
    unfolding get_connector_def by (rule get_connector_loop_None)
next
  assume "drmModeGetResources k = Some res \<and> get_connector k res options = Some c \<and>
    connection c \<noteq> DRM_MODE_CONNECTED"
  then show "stereo_prepare_dev fdn k options = Inr None"
    by (simp add: stereo_prepare_dev_def stereo_setup_dev_def ENOENT_def)
next
  assume a: "stereo_prepare_dev fdn k options = Inr (Some dev)"
  then obtain res' where res: "drmModeGetResources k = Some res'"
    by (auto simp add: stereo_prepare_dev_def split: option.splits)
  with a obtain c' where c: "get_connector k res' options = Some c'"
    by (auto simp add: stereo_prepare_dev_def split: option.splits)
  from a res c have s: "stereo_setup_dev k res' c' options
      (zero_dev\<lparr>conn := connector_id c', fd := fdn\<rparr>) = Inr (0, dev)"
    by (auto simp add: stereo_prepare_dev_def split: sum.splits if_splits)
  have "connection c' = DRM_MODE_CONNECTED" using s by (rule stereo_setup_dev_connected)
  moreover have "conn dev = connector_id c'" using stereo_setup_dev_conn [OF s] by simp
  ultimately show "\<exists>res' c'. drmModeGetResources k = Some res' \<and>
      get_connector k res' options = Some c' \<and>
      connection c' = DRM_MODE_CONNECTED \<and> conn dev = connector_id c'"
    using res c by blast
qed

text \<open>
  The theorem at the device with two connectors: without an identifier the disconnected
  connector 1 is returned and the preparation fails; identifier 7 passes over both
  connectors; identifier 2 binds connector 2, with controller 10 found by the scan over
  the connector's encoders.
\<close>

theorem stereo_prepare_dev_first_matching_connector_witness:
  "get_connector two_connector_card \<lparr>connectors = [1, 2], crtcs = [10]\<rparr>
     \<lparr>card_path = None, stereo_layout = None, connector = 0\<rparr> =
     Some \<lparr>connector_id = 1, encoder_id = 0, connection = DRM_MODE_DISCONNECTED,
           modes = [], encoders = [5]\<rparr> \<and>
   drmModeGetResources two_connector_card = Some \<lparr>connectors = [1, 2], crtcs = [10]\<rparr> \<and>
   stereo_prepare_dev 3 two_connector_card \<lparr>card_path = None, stereo_layout = None, connector = 0\<rparr> =
     Inr None \<and>
   get_connector two_connector_card \<lparr>connectors = [1, 2], crtcs = [10]\<rparr>
     \<lparr>card_path = None, stereo_layout = None, connector = 7\<rparr> = None \<and>
   connector_passed two_connector_card \<lparr>card_path = None, stereo_layout = None, connector = 7\<rparr> 1 \<and>
   connector_passed two_connector_card \<lparr>card_path = None, stereo_layout = None, connector = 7\<rparr> 2 \<and>
   stereo_prepare_dev 3 two_connector_card \<lparr>card_path = None, stereo_layout = None, connector = 2\<rparr> =
     Inr (Some \<lparr>fd = 3,
        layout = \<lparr>buffer_width = 1920, buffer_height = 2205, eye_width = 1920,
           eye_height = 1080, virtual_eye_width = 1920, virtual_eye_height = 1080,
           right_eye_x = 0, left_eye_y = 1125\<rparr>,
        mode = hd_mode DRM_MODE_FLAG_3D_FRAME_PACKING,
        conn = 2, crtc = 10, saved_crtc = None, pending_swap = 0\<rparr>)"
  using
    stereo_prepare_dev_first_matching_connector [of two_connector_card
      "\<lparr>connectors = [1, 2], crtcs = [10]\<rparr>"
      "\<lparr>card_path = None, stereo_layout = None, connector = 0\<rparr>"
      "\<lparr>connector_id = 1, encoder_id = 0, connection = DRM_MODE_DISCONNECTED,
           modes = [], encoders = [5]\<rparr>" 3]
  by (simp add: eval_defs connector_passed_def)

text \<open>
  The claim as first stated fails at the device with two connectors: the first
  enumerated connector is disconnected and the second is connected, yet without an
  identifier the preparation fails, although it succeeds on connector 2 when that one is
  asked for.
\<close>

theorem stereo_prepare_dev_disconnected_first_counterexample:
  "drmModeGetResources two_connector_card = Some \<lparr>connectors = [1, 2], crtcs = [10]\<rparr> \<and>
   map_option connection (drmModeGetConnector two_connector_card 1) = Some DRM_MODE_DISCONNECTED \<and>
   map_option connection (drmModeGetConnector two_connector_card 2) = Some DRM_MODE_CONNECTED \<and>
   stereo_prepare_dev 3 two_connector_card \<lparr>card_path = None, stereo_layout = None, connector = 0\<rparr> =
     Inr None \<and>
   map_sum id (map_option conn)
     (stereo_prepare_dev 3 two_connector_card
        \<lparr>card_path = None, stereo_layout = None, connector = 2\<rparr>) = Inr (Some 2)"
  by (simp add: eval_defs)

subsection \<open>The device option\<close>

lemma takes_arg_d: "takes_arg ''c:l:h'' c \<noteq> None \<Longrightarrow> c \<noteq> CHR ''d''"
  by (auto split: if_splits)

lemma getopt_seq_no_d:
  "(o1, a) \<in> set (getopt_seq ''c:l:h'' cs as) \<Longrightarrow> o1 \<noteq> CHR ''d''"
proof (induction "''c:l:h''" cs as rule: getopt_seq.induct)
  case 1
  then show ?case by simp
next
  case (2 a as)
  then show ?case by (auto split: if_splits)
next
  case (3 c cs as)
  then show ?case
    by (cases "takes_arg ''c:l:h'' c") (auto split: if_splits list.splits bool.splits)
qed

lemma process_options_loop_card:
  "\<forall>x\<in>set xs. fst x \<noteq> CHR ''d'' \<Longrightarrow>
   process_options_loop atoi xs options = Returns (ret, options') \<Longrightarrow> card_path options' = card_path options"
proof (induction atoi xs options rule: process_options_loop.induct)
  case (1 atoi options)
  then show ?case by simp
next
  case (2 atoi opt optarg rest options)
  then show ?case by (auto split: if_splits option.splits)
qed

text \<open>
  Claim C6 fails on the code. The option string \<^verbatim>\<open>"-c:l:h"\<close> has no \<open>d\<close>, so
  \<^verbatim>\<open>getopt\<close> answers \<open>?\<close> for \<open>-d\<close> and \<^verbatim>\<open>process_options\<close>
  returns \<^verbatim>\<open>EXIT_FAILURE\<close> for every argument vector whose first argument is
  \<open>-d\<close>; the branch that stores the device path is never taken, so whenever
  \<^verbatim>\<open>process_options\<close> returns, no path is stored and \<^verbatim>\<open>stereo_open\<close> opens
  the default device.
\<close>

theorem process_options_rejects_d:
  "process_options atoi (prog # ''-d'' # rest) =
     Returns (EXIT_FAILURE, \<lparr>card_path = None, stereo_layout = None, connector = 0\<rparr>) \<and>
   (process_options atoi argv = Returns (ret, options) \<longrightarrow>
      card_path options = None \<and> stereo_open_card options = ''/dev/dri/card0'')"
proof
  show "process_options atoi (prog # ''-d'' # rest) =
     Returns (EXIT_FAILURE, \<lparr>card_path = None, stereo_layout = None, connector = 0\<rparr>)"
    by (simp add: process_options_def nonoption_def)
next
  show "process_options atoi argv = Returns (ret, options) \<longrightarrow>
      card_path options = None \<and> stereo_open_card options = ''/dev/dri/card0''"
  proof
    assume a: "process_options atoi argv = Returns (ret, options)"
    have "\<forall>x\<in>set (getopt_seq ''c:l:h'' [] (tl argv)). fst x \<noteq> CHR ''d''"
      using getopt_seq_no_d by fastforce
    from process_options_loop_card [OF this a [unfolded process_options_def]]
    show "card_path options = None \<and> stereo_open_card options = ''/dev/dri/card0''"
      by (simp add: stereo_open_card_def)
  qed
qed

text \<open>
  The theorem at \<^verbatim>\<open>-d /dev/dri/card1\<close>, which is refused, and at
  \<^verbatim>\<open>-c 7 -l tb\<close>, which is accepted and leaves the default device.
\<close>

theorem process_options_rejects_d_witness:
  "process_options (\<lambda>a. 7) [''stereo-es2gears'', ''-d'', ''/dev/dri/card1''] =
     Returns (EXIT_FAILURE, \<lparr>card_path = None, stereo_layout = None, connector = 0\<rparr>) \<and>
   process_options (\<lambda>a. 7) [''stereo-es2gears'', ''-c'', ''7'', ''-l'', ''tb''] =
     Returns (0, \<lparr>card_path = None, stereo_layout = Some ''tb'', connector = 7\<rparr>) \<and>
   stereo_open_card \<lparr>card_path = None, stereo_layout = Some ''tb'', connector = 7\<rparr> =
     ''/dev/dri/card0''"
  using
    process_options_rejects_d [of "\<lambda>a. 7" "''stereo-es2gears''" "[''/dev/dri/card1'']"
      "[''stereo-es2gears'', ''-c'', ''7'', ''-l'', ''tb'']" 0
      "\<lparr>card_path = None, stereo_layout = Some ''tb'', connector = 7\<rparr>"]
  by (simp add: process_options_def nonoption_def stereo_open_card_def)

subsection \<open>Traces of a present call\<close>

lemmas swap_eval = swap_def set_initial_crtc_def free_current_bo_def page_flip_handler_def
  Let_def example_bo_def bound_dev_def console_crtc_def frame_env_def fresh_winsys_def
  showing_winsys_def

lemma wait_swap_calls:
  "c \<in> set (fst (wait_swap evs dev)) \<Longrightarrow> \<exists>b. c = DrmHandleEvent b"
  by (induction evs arbitrary: dev) (auto simp add: Let_def split: if_splits)

lemma wait_swap_done:
  "snd (wait_swap evs dev) = Some dev' \<Longrightarrow> pending_swap dev \<noteq> 0 \<Longrightarrow>
   DrmHandleEvent True \<in> set (fst (wait_swap evs dev)) \<and> dev' = dev\<lparr>pending_swap := 0\<rparr>"
proof (induction evs arbitrary: dev)
  case Nil
  then show ?case by simp
next
  case (Cons e evs)
  show ?case
  proof (cases e)
    case True
    with Cons.prems have "snd (wait_swap evs (dev\<lparr>pending_swap := 0\<rparr>)) = Some dev'"
      by (simp add: Let_def page_flip_handler_def)
    then have "dev' = dev\<lparr>pending_swap := 0\<rparr>" by (cases evs) simp_all
    with True Cons.prems show ?thesis by (simp add: Let_def)
  next
    case False
    with Cons.prems have "snd (wait_swap evs dev) = Some dev'" by (simp add: Let_def)
    from Cons.IH [OF this Cons.prems(2)] False Cons.prems(2) show ?thesis
      by (simp add: Let_def)
  qed
qed

lemma free_current_bo_calls:
  "c \<in> set (fst (free_current_bo context)) \<Longrightarrow>
   c = DrmModeRmFB (current_fb_id context) \<or>
   (\<exists>bo. current_bo context = Some bo \<and> c = GbmSurfaceReleaseBuffer bo)"
  by (auto simp add: free_current_bo_def split: if_splits option.splits)

lemma set_initial_crtc_calls:
  "c \<in> set (fst (set_initial_crtc env dev fb)) \<Longrightarrow> \<not> is_release c"
  by (auto simp add: set_initial_crtc_def Let_def split: if_splits)

lemma append_split_notin:
  "xs @ ys = pre @ e # post \<Longrightarrow> e \<notin> set xs \<Longrightarrow> \<exists>pre'. pre = xs @ pre' \<and> ys = pre' @ e # post"
proof (induction xs arbitrary: pre)
  case Nil
  then show ?case by simp
next
  case (Cons x xs)
  show ?case
  proof (cases pre)
    case Nil
    with Cons.prems show ?thesis by simp
  next
    case (Cons p pre'')
    with Cons.prems have "xs @ ys = pre'' @ e # post" "e \<notin> set xs" "p = x" by simp_all
    from Cons.IH [OF this(1,2)] obtain pre' where "pre'' = xs @ pre'" "ys = pre' @ e # post"
      by blast
    with Cons \<open>p = x\<close> show ?thesis by simp
  qed
qed

lemma swap_trace_shape:
  "(\<forall>c\<in>set (fst (swap env winsys)). \<not> is_release c) \<or>
   (\<exists>front t4 t5. fst (swap env winsys) =
        front @ DrmModePageFlip (crtc (ws_dev winsys)) (addfb_fb_id env) 0 # t4 @ t5 \<and>
      (\<forall>c\<in>set front. \<not> is_release c) \<and>
      (\<forall>c\<in>set t4. \<not> is_release c) \<and> DrmHandleEvent True \<in> set t4 \<and>
      t5 = fst (free_current_bo (ws_context winsys)))"
proof (cases "lock_front_buffer env")
  case None
  then show ?thesis by (simp add: swap_def)
next
  case (Some bo)
  show ?thesis
  proof (cases "addfb_ret env \<noteq> 0")
    case True
    with Some show ?thesis by (simp add: swap_def)
  next
    case False
    define r where "r = (if saved_crtc (ws_dev winsys) = None
       then set_initial_crtc env (ws_dev winsys) (addfb_fb_id env) else ([], 0, ws_dev winsys))"
    obtain t2 ret dev2 where r: "r = (t2, ret, dev2)" by (cases r)
    have t2: "\<forall>c\<in>set t2. \<not> is_release c"
      using r set_initial_crtc_calls [of _ env "ws_dev winsys" "addfb_fb_id env"]
      by (auto simp add: r_def split: if_splits)
    have crtc2: "crtc dev2 = crtc (ws_dev winsys)"
      using r by (auto simp add: r_def set_initial_crtc_def Let_def split: if_splits)
    show ?thesis
    proof (cases "ret \<noteq> 0")
      case True
      with Some False r t2 have "\<forall>c\<in>set (fst (swap env winsys)). \<not> is_release c"
        by (simp add: swap_def r_def [symmetric] Let_def)
      then show ?thesis by (rule disjI1)
    next
      case ret0: False
      show ?thesis
      proof (cases "pageflip_ret env \<noteq> 0")
        case True
        with Some False r t2 ret0 have "\<forall>c\<in>set (fst (swap env winsys)). \<not> is_release c"
          by (simp add: swap_def r_def [symmetric] Let_def)
        then show ?thesis by (rule disjI1)
      next
        case flip: False
        obtain t4 w where w: "wait_swap (events env) (dev2\<lparr>pending_swap := 1\<rparr>) = (t4, w)"
          by (cases "wait_swap (events env) (dev2\<lparr>pending_swap := 1\<rparr>)")
        have t4: "\<forall>c\<in>set t4. \<not> is_release c"
        proof
          fix c
          assume "c \<in> set t4"
          then have "c \<in> set (fst (wait_swap (events env) (dev2\<lparr>pending_swap := 1\<rparr>)))"
            using w by simp
          then obtain b where "c = DrmHandleEvent b" using wait_swap_calls by blast
          then show "\<not> is_release c" by simp
        qed
        show ?thesis
        proof (cases w)
          case None
          with Some False r t2 ret0 flip w t4
          have "\<forall>c\<in>set (fst (swap env winsys)). \<not> is_release c"
            by (auto simp add: swap_def r_def [symmetric] Let_def)
          then show ?thesis by (rule disjI1)
        next
          case (Some dev3)
          have seen: "DrmHandleEvent True \<in> set t4"
            using wait_swap_done [of "events env" "dev2\<lparr>pending_swap := 1\<rparr>" dev3] w Some
            by simp
          obtain t5 c5 where f: "free_current_bo (ws_context winsys) = (t5, c5)"
            by (cases "free_current_bo (ws_context winsys)")
          define front where "front = [EglSwapBuffers, GbmSurfaceLockFrontBuffer (Some bo),
             DrmModeAddFB (bo_width bo) (bo_height bo) 24 32 (bo_stride bo) (bo_handle bo)
               (addfb_ret env) (addfb_fb_id env)] @ t2"
          have tr: "fst (swap env winsys) =
             front @ DrmModePageFlip (crtc (ws_dev winsys)) (addfb_fb_id env) 0 # t4 @ t5"
            using \<open>lock_front_buffer env = Some bo\<close> False r ret0 flip w Some f crtc2
            by (simp add: swap_def r_def [symmetric] Let_def front_def)
          have fr: "\<forall>c\<in>set front. \<not> is_release c" using t2 by (simp add: front_def)
          show ?thesis
            by (rule disjI2, rule exI [of _ front], rule exI [of _ t4], rule exI [of _ t5])
              (use tr fr t4 seen f in simp)
        qed
      qed
    qed
  qed
qed

text \<open>
  Claim C8. In every call of \<^verbatim>\<open>swap\<close>, a call that unregisters a framebuffer or
  returns a buffer to the surface comes after a page flip request that succeeded for the
  new framebuffer and, after that, a call of \<^verbatim>\<open>drmHandleEvent\<close> that ran the
  page-flip handler; what it releases is the framebuffer or the buffer that was current
  when \<^verbatim>\<open>swap\<close> was called.
\<close>

theorem swap_release_after_flip_completion:
  assumes "fst (swap env winsys) = pre @ e # post" and "is_release e"
  shows "(\<exists>p1 p2 p3. pre =
            p1 @ DrmModePageFlip (crtc (ws_dev winsys)) (addfb_fb_id env) 0 # p2 @
            DrmHandleEvent True # p3) \<and>
         (e = DrmModeRmFB (current_fb_id (ws_context winsys)) \<or>
          (\<exists>bo. current_bo (ws_context winsys) = Some bo \<and> e = GbmSurfaceReleaseBuffer bo))"
proof -
  have mem: "e \<in> set (fst (swap env winsys))" using assms(1) by simp
  from swap_trace_shape [of env winsys] show ?thesis
  proof
    assume "\<forall>c\<in>set (fst (swap env winsys)). \<not> is_release c"
    with mem assms(2) show ?thesis by blast
  next
    assume "\<exists>front t4 t5. fst (swap env winsys) =
        front @ DrmModePageFlip (crtc (ws_dev winsys)) (addfb_fb_id env) 0 # t4 @ t5 \<and>
      (\<forall>c\<in>set front. \<not> is_release c) \<and>
      (\<forall>c\<in>set t4. \<not> is_release c) \<and> DrmHandleEvent True \<in> set t4 \<and>
      t5 = fst (free_current_bo (ws_context winsys))"
    then obtain front t4 t5 where tr: "fst (swap env winsys) =
        front @ DrmModePageFlip (crtc (ws_dev winsys)) (addfb_fb_id env) 0 # t4 @ t5"
      and fr: "\<forall>c\<in>set front. \<not> is_release c"
      and t4: "\<forall>c\<in>set t4. \<not> is_release c"
      and seen: "DrmHandleEvent True \<in> set t4"
      and t5: "t5 = fst (free_current_bo (ws_context winsys))"
      by blast
    let ?flip = "DrmModePageFlip (crtc (ws_dev winsys)) (addfb_fb_id env) 0"
    have eq: "(front @ ?flip # t4) @ t5 = pre @ e # post" using tr assms(1) by simp
    have notin: "e \<notin> set (front @ ?flip # t4)" using fr t4 assms(2) by auto
    from append_split_notin [OF eq notin] obtain pre'
      where pre: "pre = (front @ ?flip # t4) @ pre'" and rest: "t5 = pre' @ e # post"
      by blast
    from seen obtain q1 q2 where q: "t4 = q1 @ DrmHandleEvent True # q2"
      by (auto dest: split_list)
    have "pre = front @ ?flip # q1 @ DrmHandleEvent True # (q2 @ pre')"
      using pre q by simp
    then have order: "\<exists>p1 p2 p3. pre = p1 @ ?flip # p2 @ DrmHandleEvent True # p3" by blast
    have "e \<in> set (fst (free_current_bo (ws_context winsys)))" using rest t5 by simp
    from free_current_bo_calls [OF this] order show ?thesis by simp
  qed
qed

text \<open>
  The theorem at a frame presented while framebuffer 41 is shown: the flip to 42 is
  requested, the second batch of events completes it, then 41 and its buffer are released.
\<close>

theorem swap_release_after_flip_completion_witness:
  "fst (swap (frame_env 2 42) showing_winsys) =
     [EglSwapBuffers, GbmSurfaceLockFrontBuffer (Some (example_bo 2)),
      DrmModeAddFB 1920 2205 24 32 7680 2 0 42, DrmModePageFlip 10 42 0,
      DrmHandleEvent False, DrmHandleEvent True] @
     DrmModeRmFB 41 # [GbmSurfaceReleaseBuffer (example_bo 1)] \<and>
   is_release (DrmModeRmFB 41) \<and>
   current_fb_id (ws_context showing_winsys) = 41"
  using swap_release_after_flip_completion [of "frame_env 2 42" showing_winsys
      "[EglSwapBuffers, GbmSurfaceLockFrontBuffer (Some (example_bo 2)),
        DrmModeAddFB 1920 2205 24 32 7680 2 0 42, DrmModePageFlip 10 42 0,
        DrmHandleEvent False, DrmHandleEvent True]"
      "DrmModeRmFB 41" "[GbmSurfaceReleaseBuffer (example_bo 1)]"]
  by (simp add: swap_eval)

subsection \<open>A failed registration\<close>

text \<open>
  Claim C7, as amended. When \<^verbatim>\<open>drmModeAddFB\<close> fails, \<^verbatim>\<open>swap\<close> prints a message
  and returns with the state as it was: the current framebuffer and buffer, the saved
  controller configuration and the pending flag are unchanged, and no modeset, flip,
  unregister or release call is made. The buffer that was locked is not returned to the
  surface.
\<close>

theorem swap_addfb_failure_keeps_state:
  assumes "lock_front_buffer env = Some bo" and "addfb_ret env \<noteq> 0"
  shows "swap env winsys =
           ([EglSwapBuffers, GbmSurfaceLockFrontBuffer (Some bo),
             DrmModeAddFB (bo_width bo) (bo_height bo) 24 32 (bo_stride bo) (bo_handle bo)
               (addfb_ret env) (addfb_fb_id env),
             Fprintf ''Failed to create new back buffer handle''],
            Returns winsys) \<and>
         GbmSurfaceReleaseBuffer bo \<notin> set (fst (swap env winsys))"
  using assms by (simp add: swap_def)

text \<open>The theorem at a frame whose registration fails with \<open>-22\<close>.\<close>

theorem swap_addfb_failure_keeps_state_witness:
  "lock_front_buffer ((frame_env 2 42)\<lparr>addfb_ret := - 22\<rparr>) = Some (example_bo 2) \<and>
   addfb_ret ((frame_env 2 42)\<lparr>addfb_ret := - 22\<rparr>) \<noteq> 0 \<and>
   swap ((frame_env 2 42)\<lparr>addfb_ret := - 22\<rparr>) showing_winsys =
     ([EglSwapBuffers, GbmSurfaceLockFrontBuffer (Some (example_bo 2)),
       DrmModeAddFB 1920 2205 24 32 7680 2 (- 22) 42,
       Fprintf ''Failed to create new back buffer handle''],
      Returns showing_winsys)"
  using swap_addfb_failure_keeps_state [of "(frame_env 2 42)\<lparr>addfb_ret := - 22\<rparr>"
      "example_bo 2" showing_winsys]
  by (simp add: frame_env_def example_bo_def)

text \<open>
  The claim as first stated fails at that frame: the trace of the call ends with the
  message, and the locked buffer 2 is never released.
\<close>

theorem swap_addfb_failure_no_release_counterexample:
  "addfb_ret ((frame_env 2 42)\<lparr>addfb_ret := - 22\<rparr>) \<noteq> 0 \<and>
   fst (swap ((frame_env 2 42)\<lparr>addfb_ret := - 22\<rparr>) showing_winsys) =
     [EglSwapBuffers, GbmSurfaceLockFrontBuffer (Some (example_bo 2)),
      DrmModeAddFB 1920 2205 24 32 7680 2 (- 22) 42,
      Fprintf ''Failed to create new back buffer handle''] \<and>
   GbmSurfaceReleaseBuffer (example_bo 2) \<notin>
     set (fst (swap ((frame_env 2 42)\<lparr>addfb_ret := - 22\<rparr>) showing_winsys))"
  by (simp add: swap_def frame_env_def example_bo_def)

subsection \<open>The first modeset\<close>

lemma wait_swap_saved_crtc:
  "snd (wait_swap evs dev) = Some dev' \<Longrightarrow> saved_crtc dev' = saved_crtc dev"
  by (induction evs arbitrary: dev)
    (auto simp add: Let_def page_flip_handler_def split: if_splits)

lemma swap_captured:
  assumes "saved_crtc (ws_dev winsys) = Some old"
  shows "(\<forall>c\<in>set (fst (swap env winsys)). \<not> is_modeset c) \<and>
         (\<forall>winsys'. snd (swap env winsys) = Returns winsys' \<longrightarrow>
            saved_crtc (ws_dev winsys') = Some old)"
proof (cases "wait_swap (events env) ((ws_dev winsys)\<lparr>pending_swap := 1\<rparr>)")
  case (Pair t4 w)
  have t4: "\<forall>c\<in>set t4. \<not> is_modeset c"
  proof
    fix c
    assume "c \<in> set t4"
    then have "c \<in> set (fst (wait_swap (events env) ((ws_dev winsys)\<lparr>pending_swap := 1\<rparr>)))"
      using Pair by simp
    then obtain b where "c = DrmHandleEvent b" using wait_swap_calls by blast
    then show "\<not> is_modeset c" by simp
  qed
  have w: "w = Some dev3 \<Longrightarrow> saved_crtc dev3 = Some old" for dev3
    using wait_swap_saved_crtc [of "events env" "(ws_dev winsys)\<lparr>pending_swap := 1\<rparr>" dev3]
      Pair assms by simp
  have t5: "\<forall>c\<in>set (fst (free_current_bo (ws_context winsys))). \<not> is_modeset c"
    by (auto dest: free_current_bo_calls)
  show ?thesis
    using assms Pair t4 w t5
    by (auto simp add: swap_def Let_def split: option.splits prod.splits)
qed

lemma main_loop_captured:
  "saved_crtc (ws_dev winsys) = Some old \<Longrightarrow>
   (\<forall>c\<in>set (fst (main_loop envs winsys)). \<not> is_modeset c) \<and>
   (\<forall>winsys'. snd (main_loop envs winsys) = Returns winsys' \<longrightarrow>
      saved_crtc (ws_dev winsys') = Some old)"
proof (induction envs arbitrary: winsys)
  case Nil
  then show ?case by simp
next
  case (Cons env envs)
  obtain t r where s: "swap env winsys = (t, r)" by (cases "swap env winsys")
  from swap_captured [OF Cons.prems, of env] s
  have t: "\<forall>c\<in>set t. \<not> is_modeset c"
    and r: "\<And>winsys'. r = Returns winsys' \<Longrightarrow> saved_crtc (ws_dev winsys') = Some old"
    by simp_all
  show ?case
  proof (cases r)
    case (Returns winsys')
    from Cons.IH [OF r [OF Returns]] s Returns t show ?thesis
      by (auto simp add: Let_def)
  next
    case (Exits n)
    with s t show ?thesis by simp
  next
    case Blocks
    with s t show ?thesis by simp
  next
    case (Crashes f)
    with s t show ?thesis by simp
  qed
qed

lemma swap_first_modeset:
  assumes "saved_crtc (ws_dev winsys) = None" and "lock_front_buffer env = Some bo"
    and "addfb_ret env = 0"
  shows "(\<exists>rest. fst (swap env winsys) =
            [EglSwapBuffers, GbmSurfaceLockFrontBuffer (Some bo),
             DrmModeAddFB (bo_width bo) (bo_height bo) 24 32 (bo_stride bo) (bo_handle bo)
               0 (addfb_fb_id env),
             DrmModeGetCrtc (crtc (ws_dev winsys)) (getcrtc env),
             DrmModeSetCrtc (crtc (ws_dev winsys)) (addfb_fb_id env) 0 0 [conn (ws_dev winsys)]
               (mode (ws_dev winsys)) (setcrtc_ret env)] @ rest \<and>
            (\<forall>c\<in>set rest. \<not> is_modeset c)) \<and>
         (\<forall>winsys'. snd (swap env winsys) = Returns winsys' \<longrightarrow>
            saved_crtc (ws_dev winsys') = getcrtc env)"
proof (cases "wait_swap (events env)
    ((ws_dev winsys)\<lparr>saved_crtc := getcrtc env, pending_swap := 1\<rparr>)")
  case (Pair t4 w)
  have t4: "\<forall>c\<in>set t4. \<not> is_modeset c"
  proof
    fix c
    assume "c \<in> set t4"
    then have "c \<in> set (fst (wait_swap (events env)
        ((ws_dev winsys)\<lparr>saved_crtc := getcrtc env, pending_swap := 1\<rparr>)))"
      using Pair by simp
    then obtain b where "c = DrmHandleEvent b" using wait_swap_calls by blast
    then show "\<not> is_modeset c" by simp
  qed
  have w: "w = Some dev3 \<Longrightarrow> saved_crtc dev3 = getcrtc env" for dev3
    using wait_swap_saved_crtc [of "events env"
        "(ws_dev winsys)\<lparr>saved_crtc := getcrtc env, pending_swap := 1\<rparr>" dev3] Pair
    by simp
  have t5: "\<forall>c\<in>set (fst (free_current_bo (ws_context winsys))). \<not> is_modeset c"
    by (auto dest: free_current_bo_calls)
  let ?head = "[EglSwapBuffers, GbmSurfaceLockFrontBuffer (Some bo),
             DrmModeAddFB (bo_width bo) (bo_height bo) 24 32 (bo_stride bo) (bo_handle bo)
               0 (addfb_fb_id env),
             DrmModeGetCrtc (crtc (ws_dev winsys)) (getcrtc env),
             DrmModeSetCrtc (crtc (ws_dev winsys)) (addfb_fb_id env) 0 0 [conn (ws_dev winsys)]
               (mode (ws_dev winsys)) (setcrtc_ret env)]"
  let ?flip = "DrmModePageFlip (crtc (ws_dev winsys)) (addfb_fb_id env) (pageflip_ret env)"
  consider (nomode) "setcrtc_ret env \<noteq> 0 \<and> errno env \<noteq> 0"
    | (noflip) "(setcrtc_ret env = 0 \<or> errno env = 0) \<and> pageflip_ret env \<noteq> 0"
    | (blocks) "(setcrtc_ret env = 0 \<or> errno env = 0) \<and> pageflip_ret env = 0 \<and> w = None"
    | (flipped) dev3 where "(setcrtc_ret env = 0 \<or> errno env = 0) \<and> pageflip_ret env = 0 \<and>
        w = Some dev3"
    by (cases w) auto
  then show ?thesis
  proof cases
    case nomode
    then have "swap env winsys =
        (?head @ [Fprintf ''Failed to set drm mode''],
         Returns (winsys\<lparr>ws_dev := (ws_dev winsys)\<lparr>saved_crtc := getcrtc env\<rparr>\<rparr>))"
      using assms by (simp add: swap_def set_initial_crtc_def Let_def)
    then show ?thesis by simp
  next
    case noflip
    then have "\<exists>rest. swap env winsys =
        (?head @ rest, Returns (winsys\<lparr>ws_dev := (ws_dev winsys)\<lparr>saved_crtc := getcrtc env\<rparr>\<rparr>))
        \<and> (\<forall>c\<in>set rest. \<not> is_modeset c)"
      using assms by (auto simp add: swap_def set_initial_crtc_def Let_def)
    then show ?thesis by auto
  next
    case blocks
    then have "\<exists>rest. swap env winsys = (?head @ rest, Blocks)
        \<and> (\<forall>c\<in>set rest. \<not> is_modeset c)"
      using assms Pair t4 by (auto simp add: swap_def set_initial_crtc_def Let_def)
    then show ?thesis by auto
  next
    case flipped
    obtain t5 c5 where f: "free_current_bo (ws_context winsys) = (t5, c5)"
      by (cases "free_current_bo (ws_context winsys)")
    have "\<exists>rest. swap env winsys =
        (?head @ rest, Returns \<lparr>ws_dev = dev3,
           ws_context = c5\<lparr>current_bo := Some bo, current_fb_id := addfb_fb_id env\<rparr>\<rparr>)
        \<and> (\<forall>c\<in>set rest. \<not> is_modeset c)"
      using assms Pair t4 t5 flipped f
      by (auto simp add: swap_def set_initial_crtc_def Let_def)
    then show ?thesis using w flipped by auto
  qed
qed


lemma swap_flips_when_captured:
  assumes "saved_crtc (ws_dev winsys) = Some old" and "lock_front_buffer env = Some bo"
    and "addfb_ret env = 0"
  shows "DrmModePageFlip (crtc (ws_dev winsys)) (addfb_fb_id env) (pageflip_ret env)
           \<in> set (fst (swap env winsys))"
proof (cases "pageflip_ret env \<noteq> 0")
  case True
  with assms show ?thesis by (simp add: swap_def Let_def)
next
  case False
  with assms show ?thesis
    by (cases "wait_swap (events env) ((ws_dev winsys)\<lparr>pending_swap := 1\<rparr>)";
        cases "snd (wait_swap (events env) ((ws_dev winsys)\<lparr>pending_swap := 1\<rparr>))";
        cases "free_current_bo (ws_context winsys)")
      (simp_all add: swap_def Let_def)
qed

text \<open>
  Claim C9, as amended. A call of \<^verbatim>\<open>swap\<close> that registers its framebuffer while no
  controller configuration is saved reads the controller's configuration and, as the
  very next call, sets the chosen mode with the new framebuffer on the bound connector;
  the configuration read at that moment is what is saved when the call returns, and no
  other modeset call is made in it. Once a configuration is saved, no later call of
  \<^verbatim>\<open>swap\<close> in the loop makes a modeset call or changes the saved configuration,
  and every call that registers its framebuffer requests a page flip.
\<close>

theorem swap_modeset_until_captured:
  "(saved_crtc (ws_dev winsys) = None \<and> lock_front_buffer env = Some bo \<and> addfb_ret env = 0 \<longrightarrow>
      (\<exists>rest. fst (swap env winsys) =
            [EglSwapBuffers, GbmSurfaceLockFrontBuffer (Some bo),
             DrmModeAddFB (bo_width bo) (bo_height bo) 24 32 (bo_stride bo) (bo_handle bo)
               0 (addfb_fb_id env),
             DrmModeGetCrtc (crtc (ws_dev winsys)) (getcrtc env),
             DrmModeSetCrtc (crtc (ws_dev winsys)) (addfb_fb_id env) 0 0 [conn (ws_dev winsys)]
               (mode (ws_dev winsys)) (setcrtc_ret env)] @ rest \<and>
            (\<forall>c\<in>set rest. \<not> is_modeset c)) \<and>
      (\<forall>winsys'. snd (swap env winsys) = Returns winsys' \<longrightarrow>
         saved_crtc (ws_dev winsys') = getcrtc env)) \<and>
   (saved_crtc (ws_dev winsys) = Some old \<longrightarrow>
      (\<forall>c\<in>set (fst (main_loop envs winsys)). \<not> is_modeset c) \<and>
      (\<forall>winsys'. snd (main_loop envs winsys) = Returns winsys' \<longrightarrow>
         saved_crtc (ws_dev winsys') = Some old) \<and>
      (lock_front_buffer env = Some bo \<and> addfb_ret env = 0 \<longrightarrow>
         DrmModePageFlip (crtc (ws_dev winsys)) (addfb_fb_id env) (pageflip_ret env)
           \<in> set (fst (swap env winsys))))"
  using swap_first_modeset [of winsys env bo] main_loop_captured [of winsys old envs]
    swap_flips_when_captured [of winsys old env bo]
  by blast

text \<open>
  The theorem at the first frame of a fresh binding, which sets the mode and saves the
  console's configuration, and at two later frames, which only flip.
\<close>

theorem swap_modeset_until_captured_witness:
  "saved_crtc (ws_dev fresh_winsys) = None \<and>
   lock_front_buffer (frame_env 2 42) = Some (example_bo 2) \<and>
   addfb_ret (frame_env 2 42) = 0 \<and>
   swap (frame_env 2 42) fresh_winsys =
     ([EglSwapBuffers, GbmSurfaceLockFrontBuffer (Some (example_bo 2)),
       DrmModeAddFB 1920 2205 24 32 7680 2 0 42,
       DrmModeGetCrtc 10 (Some console_crtc),
       DrmModeSetCrtc 10 42 0 0 [2] (hd_mode DRM_MODE_FLAG_3D_FRAME_PACKING) 0,
       DrmModePageFlip 10 42 0, DrmHandleEvent False, DrmHandleEvent True],
      Returns \<lparr>ws_dev = bound_dev\<lparr>saved_crtc := Some console_crtc\<rparr>,
               ws_context = \<lparr>current_fb_id = 42, current_bo = Some (example_bo 2)\<rparr>\<rparr>) \<and>
   saved_crtc (ws_dev showing_winsys) = Some console_crtc \<and>
   main_loop [frame_env 2 42, frame_env 3 43] showing_winsys =
     ([EglSwapBuffers, GbmSurfaceLockFrontBuffer (Some (example_bo 2)),
       DrmModeAddFB 1920 2205 24 32 7680 2 0 42,
       DrmModePageFlip 10 42 0, DrmHandleEvent False, DrmHandleEvent True,
       DrmModeRmFB 41, GbmSurfaceReleaseBuffer (example_bo 1),
       EglSwapBuffers, GbmSurfaceLockFrontBuffer (Some (example_bo 3)),
       DrmModeAddFB 1920 2205 24 32 7680 3 0 43,
       DrmModePageFlip 10 43 0, DrmHandleEvent False, DrmHandleEvent True,
       DrmModeRmFB 42, GbmSurfaceReleaseBuffer (example_bo 2)],
      Returns \<lparr>ws_dev = bound_dev\<lparr>saved_crtc := Some console_crtc\<rparr>,
               ws_context = \<lparr>current_fb_id = 43, current_bo = Some (example_bo 3)\<rparr>\<rparr>) \<and>
   filter is_modeset (fst (main_loop [frame_env 2 42, frame_env 3 43] showing_winsys)) = []"
proof -
  have fresh: "saved_crtc (ws_dev fresh_winsys) = None \<and>
      lock_front_buffer (frame_env 2 42) = Some (example_bo 2) \<and> addfb_ret (frame_env 2 42) = 0"
    by (simp add: fresh_winsys_def bound_dev_def frame_env_def)
  have first: "swap (frame_env 2 42) fresh_winsys =
     ([EglSwapBuffers, GbmSurfaceLockFrontBuffer (Some (example_bo 2)),
       DrmModeAddFB 1920 2205 24 32 7680 2 0 42,
       DrmModeGetCrtc 10 (Some console_crtc),
       DrmModeSetCrtc 10 42 0 0 [2] (hd_mode DRM_MODE_FLAG_3D_FRAME_PACKING) 0,
       DrmModePageFlip 10 42 0, DrmHandleEvent False, DrmHandleEvent True],
      Returns \<lparr>ws_dev = bound_dev\<lparr>saved_crtc := Some console_crtc\<rparr>,
               ws_context = \<lparr>current_fb_id = 42, current_bo = Some (example_bo 2)\<rparr>\<rparr>)"
    by (simp add: swap_eval hd_mode_def)
  have showing: "saved_crtc (ws_dev showing_winsys) = Some console_crtc"
    by (simp add: showing_winsys_def)
  have later: "main_loop [frame_env 2 42, frame_env 3 43] showing_winsys =
     ([EglSwapBuffers, GbmSurfaceLockFrontBuffer (Some (example_bo 2)),
       DrmModeAddFB 1920 2205 24 32 7680 2 0 42,
       DrmModePageFlip 10 42 0, DrmHandleEvent False, DrmHandleEvent True,
       DrmModeRmFB 41, GbmSurfaceReleaseBuffer (example_bo 1),
       EglSwapBuffers, GbmSurfaceLockFrontBuffer (Some (example_bo 3)),
       DrmModeAddFB 1920 2205 24 32 7680 3 0 43,
       DrmModePageFlip 10 43 0, DrmHandleEvent False, DrmHandleEvent True,
       DrmModeRmFB 42, GbmSurfaceReleaseBuffer (example_bo 2)],
      Returns \<lparr>ws_dev = bound_dev\<lparr>saved_crtc := Some console_crtc\<rparr>,
               ws_context = \<lparr>current_fb_id = 43, current_bo = Some (example_bo 3)\<rparr>\<rparr>)"
    by (simp add: swap_eval hd_mode_def)
  from showing
    swap_modeset_until_captured [of showing_winsys "frame_env 2 42" "example_bo 2" console_crtc
      "[frame_env 2 42, frame_env 3 43]"]
  have "\<forall>c\<in>set (fst (main_loop [frame_env 2 42, frame_env 3 43] showing_winsys)).
      \<not> is_modeset c"
    by blast
  then have none: "filter is_modeset
      (fst (main_loop [frame_env 2 42, frame_env 3 43] showing_winsys)) = []"
    by (simp only: filter_False)
  from fresh first showing later none show ?thesis by blast
qed

text \<open>
  The claim as first stated fails when \<^verbatim>\<open>drmModeGetCrtc\<close> returns NULL in the
  first frame: nothing is saved, so the second frame sets the mode again and saves the
  configuration that the program itself had set.
\<close>

theorem swap_second_modeset_counterexample:
  "filter is_modeset
     (fst (main_loop [(frame_env 2 42)\<lparr>getcrtc := None\<rparr>,
                      (frame_env 3 43)\<lparr>getcrtc := Some own_crtc\<rparr>] fresh_winsys)) =
     [DrmModeGetCrtc 10 None,
      DrmModeSetCrtc 10 42 0 0 [2] (hd_mode DRM_MODE_FLAG_3D_FRAME_PACKING) 0,
      DrmModeGetCrtc 10 (Some own_crtc),
      DrmModeSetCrtc 10 43 0 0 [2] (hd_mode DRM_MODE_FLAG_3D_FRAME_PACKING) 0] \<and>
   snd (main_loop [(frame_env 2 42)\<lparr>getcrtc := None\<rparr>,
                   (frame_env 3 43)\<lparr>getcrtc := Some own_crtc\<rparr>] fresh_winsys) =
     Returns \<lparr>ws_dev = bound_dev\<lparr>saved_crtc := Some own_crtc\<rparr>,
              ws_context = \<lparr>current_fb_id = 43, current_bo = Some (example_bo 3)\<rparr>\<rparr>"
  by (simp add: swap_eval hd_mode_def own_crtc_def)

end
